theory Spec2Isabelle
  imports Main "HOL-Library.Sublist" "HOL-Library.AList"
begin

section \<open>Strings as the scripts use them\<close>

text \<open>
  JavaScript's \<open>s.startsWith(p)\<close>, \<open>s.endsWith(p)\<close> and \<open>s.includes(p)\<close> on
  strings, with the receiver first as in the source. A string is a list of characters.
\<close>

definition startsWith :: "string \<Rightarrow> string \<Rightarrow> bool" where
  "startsWith s p = prefix p s"

definition endsWith :: "string \<Rightarrow> string \<Rightarrow> bool" where
  "endsWith s p = suffix p s"

definition includes_str :: "string \<Rightarrow> string \<Rightarrow> bool" where
  "includes_str s p = sublist p s"

text \<open>\<open>s.replace(/\/+$/, '')\<close>: the run of slashes that ends the string is removed.\<close>

definition stripTrailingSlashes :: "string \<Rightarrow> string" where
  "stripTrailingSlashes s = rev (dropWhile (\<lambda>c. c = CHR ''/'') (rev s))"

text \<open>
  A value that is a string or \<open>undefined\<close> is a \<open>string option\<close>. It is truthy when it
  is a string that is not empty.
\<close>

fun truthy :: "string option \<Rightarrow> bool" where
  "truthy None = False"
| "truthy (Some s) = (s \<noteq> [])"

text \<open>\<open>a || b\<close> on such values.\<close>

definition or_else :: "string option \<Rightarrow> string option \<Rightarrow> string option" where
  "or_else a b = (if truthy a then a else b)"


section \<open>The backup restore decision of the launch script\<close>

text \<open>
  \<open>should_restore_from_r2\<close> of the launch script. The two \<open>.last-sync\<close> files are
  the arguments: \<open>None\<close> when \<open>[ -f ... ]\<close> fails, otherwise what \<open>$(cat ...)\<close> gives.
  \<open>date -d\<close> is a program of the system, taken as the parameter \<open>date_d\<close>: it prints
  the epoch seconds of a string it can read and fails on any other.
  \<open>$(date -d "$T" +%s 2>/dev/null || echo "0")\<close> is \<open>epoch_of\<close>. The function's
  value is its return status, 0 for "restore".
\<close>

definition epoch_of :: "(string \<Rightarrow> int option) \<Rightarrow> string \<Rightarrow> int" where
  "epoch_of date_d t = (case date_d t of Some e \<Rightarrow> e | None \<Rightarrow> 0)"

definition should_restore_from_r2 ::
  "(string \<Rightarrow> int option) \<Rightarrow> string option \<Rightarrow> string option \<Rightarrow> nat" where
  "should_restore_from_r2 date_d R2_SYNC_FILE LOCAL_SYNC_FILE =
     (case R2_SYNC_FILE of
        None \<Rightarrow> 1
      | Some R2_TIME \<Rightarrow>
          (case LOCAL_SYNC_FILE of
             None \<Rightarrow> 0
           | Some LOCAL_TIME \<Rightarrow>
               (let R2_EPOCH = epoch_of date_d R2_TIME;
                    LOCAL_EPOCH = epoch_of date_d LOCAL_TIME
                in if R2_EPOCH > LOCAL_EPOCH then 0 else 1)))"

text \<open>
  A reader of timestamps for the examples: it knows the two timestamps of the spec's
  decision table and fails on every other string.
\<close>

definition sample_date_d :: "string \<Rightarrow> int option" where
  "sample_date_d t =
     (if t = ''2024-01-01T00:00:00Z'' then Some 1704067200
      else if t = ''2024-01-02T00:00:00Z'' then Some 1704153600
      else None)"


section \<open>The environment reconciler\<close>

text \<open>
  The worker's environment bindings (\<open>MoltbotEnv\<close>): every binding is a string or is
  not set. The declaration of the type is not among the sources; the fields are the ones
  the functions below read.
\<close>

record MoltbotEnv =
  AI_GATEWAY_BASE_URL :: "string option"
  CLOUDFLARE_AI_GATEWAY_ID :: "string option"
  CF_ACCOUNT_ID :: "string option"
  CF_AI_GATEWAY_MODEL :: "string option"
  AI_GATEWAY_API_KEY :: "string option"
  CLOUDFLARE_AI_GATEWAY_API_KEY :: "string option"
  ANTHROPIC_API_KEY :: "string option"
  OPENAI_API_KEY :: "string option"
  ANTHROPIC_BASE_URL :: "string option"
  MOLTBOT_GATEWAY_TOKEN :: "string option"
  DEV_MODE :: "string option"
  E2E_TEST_MODE :: "string option"
  CLAWDBOT_BIND_MODE :: "string option"
  TELEGRAM_BOT_TOKEN :: "string option"
  TELEGRAM_DM_POLICY :: "string option"
  DISCORD_BOT_TOKEN :: "string option"
  DISCORD_DM_POLICY :: "string option"
  SLACK_BOT_TOKEN :: "string option"
  SLACK_APP_TOKEN :: "string option"
  CDP_SECRET :: "string option"
  WORKER_URL :: "string option"
  CF_ACCESS_TEAM_DOMAIN :: "string option"
  CF_ACCESS_AUD :: "string option"

text \<open>
  \<open>Record<string, string>\<close>: an association list in insertion order. Assigning to a key
  that is there keeps its place, assigning to a new key appends it, which is
  \<open>AList.update\<close>; reading a key is \<open>map_of\<close>.
\<close>

type_synonym env_vars = "(string \<times> string) list"

text \<open>\<open>if (v) envVars[k] = v\<close>.\<close>

definition set_if_truthy :: "string \<Rightarrow> string option \<Rightarrow> env_vars \<Rightarrow> env_vars" where
  "set_if_truthy k v envVars =
     (case v of
        Some s \<Rightarrow> if s \<noteq> [] then AList.update k s envVars else envVars
      | None \<Rightarrow> envVars)"

text \<open>
  The first part of \<open>buildEnvVars\<close>: the base URL, built from the account and gateway
  ids when it is not set, then normalised; and the test for the OpenAI endpoint.
\<close>

definition gateway_provider :: "MoltbotEnv \<Rightarrow> string" where
  "gateway_provider env =
     (if (case CF_AI_GATEWAY_MODEL env of
            Some m \<Rightarrow> startsWith m ''google/'' \<or> includes_str m ''gemini''
          | None \<Rightarrow> False)
      then ''openai'' else ''anthropic'')"

definition resolved_baseUrl :: "MoltbotEnv \<Rightarrow> string option" where
  "resolved_baseUrl env =
     (if \<not> truthy (AI_GATEWAY_BASE_URL env) \<and> truthy (CLOUDFLARE_AI_GATEWAY_ID env)
           \<and> truthy (CF_ACCOUNT_ID env)
      then Some (''https://gateway.ai.cloudflare.com/v1/'' @ the (CF_ACCOUNT_ID env) @ ''/''
                 @ the (CLOUDFLARE_AI_GATEWAY_ID env) @ ''/'' @ gateway_provider env)
      else AI_GATEWAY_BASE_URL env)"

definition normalizedBaseUrl :: "MoltbotEnv \<Rightarrow> string option" where
  "normalizedBaseUrl env = map_option stripTrailingSlashes (resolved_baseUrl env)"

definition isOpenAIGateway :: "MoltbotEnv \<Rightarrow> bool" where
  "isOpenAIGateway env =
     (case normalizedBaseUrl env of Some u \<Rightarrow> endsWith u ''/openai'' | None \<Rightarrow> False)"

text \<open>
  The body of \<open>buildEnvVars\<close> in its three blocks, each taking the record built so far:
  the API keys, the base URL, and the settings passed through.
\<close>

definition gateway_apiKey :: "MoltbotEnv \<Rightarrow> string option" where
  "gateway_apiKey env = or_else (AI_GATEWAY_API_KEY env) (CLOUDFLARE_AI_GATEWAY_API_KEY env)"

definition api_key_vars :: "MoltbotEnv \<Rightarrow> env_vars \<Rightarrow> env_vars" where
  "api_key_vars env envVars0 =
     (let apiKey = gateway_apiKey env;
          envVars1 =
            (if truthy apiKey then
               (if isOpenAIGateway env
                then AList.update ''OPENAI_API_KEY'' (the apiKey) envVars0
                else AList.update ''ANTHROPIC_API_KEY'' (the apiKey) envVars0)
             else envVars0);
          envVars2 =
            (if \<not> truthy (map_of envVars1 ''ANTHROPIC_API_KEY'') \<and> truthy (ANTHROPIC_API_KEY env)
             then AList.update ''ANTHROPIC_API_KEY'' (the (ANTHROPIC_API_KEY env)) envVars1
             else envVars1)
      in if \<not> truthy (map_of envVars2 ''OPENAI_API_KEY'') \<and> truthy (OPENAI_API_KEY env)
         then AList.update ''OPENAI_API_KEY'' (the (OPENAI_API_KEY env)) envVars2
         else envVars2)"

definition base_url_vars :: "MoltbotEnv \<Rightarrow> env_vars \<Rightarrow> env_vars" where
  "base_url_vars env envVars0 =
     (if truthy (normalizedBaseUrl env) then
        (let envVars1 =
               AList.update ''AI_GATEWAY_BASE_URL'' (the (normalizedBaseUrl env)) envVars0
         in if isOpenAIGateway env
            then AList.update ''OPENAI_BASE_URL'' (the (normalizedBaseUrl env)) envVars1
            else AList.update ''ANTHROPIC_BASE_URL'' (the (normalizedBaseUrl env)) envVars1)
      else if truthy (ANTHROPIC_BASE_URL env)
      then AList.update ''ANTHROPIC_BASE_URL'' (the (ANTHROPIC_BASE_URL env)) envVars0
      else envVars0)"

definition passthrough_vars :: "MoltbotEnv \<Rightarrow> env_vars \<Rightarrow> env_vars" where
  "passthrough_vars env =
     set_if_truthy ''CF_AI_GATEWAY_MODEL'' (CF_AI_GATEWAY_MODEL env)
     \<circ> set_if_truthy ''CF_ACCOUNT_ID'' (CF_ACCOUNT_ID env)
     \<circ> set_if_truthy ''WORKER_URL'' (WORKER_URL env)
     \<circ> set_if_truthy ''WORKER_URL'' (WORKER_URL env)
     \<circ> set_if_truthy ''CDP_SECRET'' (CDP_SECRET env)
     \<circ> set_if_truthy ''SLACK_APP_TOKEN'' (SLACK_APP_TOKEN env)
     \<circ> set_if_truthy ''SLACK_BOT_TOKEN'' (SLACK_BOT_TOKEN env)
     \<circ> set_if_truthy ''DISCORD_DM_POLICY'' (DISCORD_DM_POLICY env)
     \<circ> set_if_truthy ''DISCORD_BOT_TOKEN'' (DISCORD_BOT_TOKEN env)
     \<circ> set_if_truthy ''TELEGRAM_DM_POLICY'' (TELEGRAM_DM_POLICY env)
     \<circ> set_if_truthy ''TELEGRAM_BOT_TOKEN'' (TELEGRAM_BOT_TOKEN env)
     \<circ> set_if_truthy ''CLAWDBOT_BIND_MODE'' (CLAWDBOT_BIND_MODE env)
     \<circ> set_if_truthy ''CLAWDBOT_DEV_MODE'' (DEV_MODE env)
     \<circ> set_if_truthy ''CLAWDBOT_GATEWAY_TOKEN'' (MOLTBOT_GATEWAY_TOKEN env)"

text \<open>
  \<open>buildEnvVars\<close>: the record starts empty and goes through the three blocks in the
  order of the source (the composition above runs from its last line to its first).
\<close>

definition buildEnvVars :: "MoltbotEnv \<Rightarrow> env_vars" where
  "buildEnvVars env = passthrough_vars env (base_url_vars env (api_key_vars env []))"

text \<open>An environment with nothing set, to build examples from.\<close>

definition empty_env :: MoltbotEnv where
  "empty_env = \<lparr> AI_GATEWAY_BASE_URL = None, CLOUDFLARE_AI_GATEWAY_ID = None,
     CF_ACCOUNT_ID = None, CF_AI_GATEWAY_MODEL = None, AI_GATEWAY_API_KEY = None,
     CLOUDFLARE_AI_GATEWAY_API_KEY = None, ANTHROPIC_API_KEY = None, OPENAI_API_KEY = None,
     ANTHROPIC_BASE_URL = None, MOLTBOT_GATEWAY_TOKEN = None, DEV_MODE = None,
     E2E_TEST_MODE = None, CLAWDBOT_BIND_MODE = None, TELEGRAM_BOT_TOKEN = None,
     TELEGRAM_DM_POLICY = None, DISCORD_BOT_TOKEN = None, DISCORD_DM_POLICY = None,
     SLACK_BOT_TOKEN = None, SLACK_APP_TOKEN = None, CDP_SECRET = None, WORKER_URL = None,
     CF_ACCESS_TEAM_DOMAIN = None, CF_ACCESS_AUD = None \<rparr>"


text \<open>
  Three environments for the examples: a gateway key with an OpenAI endpoint written with
  a trailing slash, a gateway key with an Anthropic endpoint, and direct keys only.
\<close>

definition env_gateway_openai :: MoltbotEnv where
  "env_gateway_openai = empty_env
     \<lparr> AI_GATEWAY_BASE_URL := Some ''https://gateway.ai.cloudflare.com/v1/acc/gw/openai/'',
       AI_GATEWAY_API_KEY := Some ''gw-key'',
       ANTHROPIC_API_KEY := Some ''sk-ant'',
       OPENAI_API_KEY := Some ''sk-oai'' \<rparr>"

definition env_gateway_anthropic :: MoltbotEnv where
  "env_gateway_anthropic = empty_env
     \<lparr> AI_GATEWAY_BASE_URL := Some ''https://gateway.ai.cloudflare.com/v1/acc/gw/anthropic'',
       CLOUDFLARE_AI_GATEWAY_API_KEY := Some ''gw-key'',
       ANTHROPIC_API_KEY := Some ''sk-ant'',
       OPENAI_API_KEY := Some ''sk-oai'' \<rparr>"

definition env_direct_keys :: MoltbotEnv where
  "env_direct_keys = empty_env
     \<lparr> ANTHROPIC_API_KEY := Some ''sk-ant'', OPENAI_API_KEY := Some ''sk-oai'' \<rparr>"


section \<open>The sandbox platform and its effects\<close>

text \<open>
  A value thrown in JavaScript: an \<open>Error\<close> with its message, or any other value.
\<close>

datatype thrown = Error string | Thrown_value string

text \<open>
  \<open>Process\<close> of the sandbox library, as far as the code reads it, and the logs that
  \<open>getLogs\<close> returns.
\<close>

record Process =
  proc_id :: string
  command :: string
  status :: string

record Logs =
  stdout :: string
  stderr :: string

text \<open>
  What a run does to the outside is a trace of events: the calls to the platform and
  the lines written to the console, each with its arguments in order. For the access
  middleware the events are \<open>c.set('accessUser', {email, name})\<close>, the call of
  \<open>next\<close> and the call of \<open>verifyAccessJWT\<close> with the token, the team domain and
  the audience.
\<close>

datatype log_arg = Str string | Num nat | Strs "string list" | Err thrown

datatype event =
    Call_mountR2Storage
  | Call_listProcesses
  | Call_kill Process
  | Call_setTimeout nat
  | Call_startProcess string "env_vars option"
  | Call_waitForPort Process nat nat
  | Call_getLogs Process
  | Console_log "log_arg list"
  | Console_error "log_arg list"
  | Set_accessUser string string
  | Call_next
  | Call_verifyAccessJWT string string string

text \<open>
  The platform answers each call, and its answer may depend on all that happened before:
  every answer is a function of the trace up to the call. \<open>mountR2Storage\<close> is a
  function of this repository that is not among the sources; all that is used of it here
  is that it returns or throws.
\<close>

record Sandbox =
  mountR2Storage :: "event list \<Rightarrow> thrown option"
  listProcesses :: "event list \<Rightarrow> thrown + Process list"
  kill :: "event list \<Rightarrow> Process \<Rightarrow> thrown option"
  startProcess :: "event list \<Rightarrow> string \<Rightarrow> env_vars option \<Rightarrow> thrown + Process"
  waitForPort :: "event list \<Rightarrow> Process \<Rightarrow> nat \<Rightarrow> nat \<Rightarrow> thrown option"
  getLogs :: "event list \<Rightarrow> Process \<Rightarrow> thrown + Logs"

text \<open>
  An asynchronous function of the source is a function from the trace so far to the trace
  after it, with the value it returns (\<open>Inr\<close>) or throws (\<open>Inl\<close>).
\<close>

type_synonym 'a io = "event list \<Rightarrow> event list \<times> (thrown + 'a)"

definition io_return :: "'a \<Rightarrow> 'a io" where
  "io_return x = (\<lambda>tr. (tr, Inr x))"

definition io_throw :: "thrown \<Rightarrow> 'a io" where
  "io_throw e = (\<lambda>tr. (tr, Inl e))"

definition io_bind :: "'a io \<Rightarrow> ('a \<Rightarrow> 'b io) \<Rightarrow> 'b io" where
  "io_bind m f = (\<lambda>tr. case m tr of (tr', Inl e) \<Rightarrow> (tr', Inl e) | (tr', Inr x) \<Rightarrow> f x tr')"

definition io_then :: "unit io \<Rightarrow> 'b io \<Rightarrow> 'b io" where
  "io_then m k = io_bind m (\<lambda>_. k)"

text \<open>\<open>try { m } catch (e) { h e }\<close>.\<close>

definition io_catch :: "'a io \<Rightarrow> (thrown \<Rightarrow> 'a io) \<Rightarrow> 'a io" where
  "io_catch m h = (\<lambda>tr. case m tr of (tr', Inl e) \<Rightarrow> h e tr' | (tr', Inr x) \<Rightarrow> (tr', Inr x))"

definition console_log :: "log_arg list \<Rightarrow> unit io" where
  "console_log args = (\<lambda>tr. (tr @ [Console_log args], Inr ()))"

definition console_error :: "log_arg list \<Rightarrow> unit io" where
  "console_error args = (\<lambda>tr. (tr @ [Console_error args], Inr ()))"

text \<open>A call to the platform: the event is recorded and the platform answers.\<close>

definition call :: "event \<Rightarrow> (event list \<Rightarrow> thrown + 'a) \<Rightarrow> 'a io" where
  "call ev answer = (\<lambda>tr. (tr @ [ev], answer tr))"

definition unit_result :: "thrown option \<Rightarrow> thrown + unit" where
  "unit_result r = (case r of None \<Rightarrow> Inr () | Some e \<Rightarrow> Inl e)"

text \<open>Decimal digits of a number, for the template strings that print one.\<close>

definition digit_char :: "nat \<Rightarrow> char" where
  "digit_char d = ''0123456789'' ! d"

fun show_nat :: "nat \<Rightarrow> string" where
  "show_nat n =
     (if n < 10 then [digit_char n]
      else show_nat (n div 10) @ [digit_char (n mod 10)])"

declare show_nat.simps [simp del]


section \<open>Discovery of gateway processes\<close>

text \<open>
  The loop of \<open>findExistingMoltbotProcesses\<close> over the listed processes: \<open>found\<close> is
  the array built so far, and a process is pushed at its end.
\<close>

definition isGatewayProcess :: "Process \<Rightarrow> bool" where
  "isGatewayProcess proc =
     (includes_str (command proc) ''start-moltbot.sh''
      \<or> includes_str (command proc) ''clawdbot gateway'')"

definition isCliCommand :: "Process \<Rightarrow> bool" where
  "isCliCommand proc =
     (includes_str (command proc) ''clawdbot devices''
      \<or> includes_str (command proc) ''clawdbot --version'')"

fun scan_processes :: "Process list \<Rightarrow> Process list \<Rightarrow> Process list" where
  "scan_processes found [] = found"
| "scan_processes found (proc # processes) =
     scan_processes
       (if isGatewayProcess proc \<and> \<not> isCliCommand proc then found @ [proc] else found)
       processes"

definition findExistingMoltbotProcesses :: "Sandbox \<Rightarrow> Process list io" where
  "findExistingMoltbotProcesses sandbox =
     io_catch
       (io_bind (call Call_listProcesses (listProcesses sandbox))
          (\<lambda>processes. io_return (scan_processes [] processes)))
       (\<lambda>e. io_then (console_log [Str ''Could not list processes:'', Err e])
               (io_return []))"


section \<open>The gateway orchestration\<close>

text \<open>
  \<open>ensureMoltbotGateway\<close>, in the order of the source: the loop that kills the
  processes found, the start of the new process, the wait for its port. The port and the
  timeout are constants of a module that is not among the sources and are parameters.
\<close>

fun kill_all :: "Sandbox \<Rightarrow> Process list \<Rightarrow> unit io" where
  "kill_all sandbox [] = io_return ()"
| "kill_all sandbox (proc # rest) =
     io_then
       (console_log
          [Str (''Killing process '' @ proc_id proc @ '' (status: '' @ status proc @ '')...'')])
       (io_then
          (io_catch
             (call (Call_kill proc) (\<lambda>tr. unit_result (kill sandbox tr proc)))
             (\<lambda>e. console_log [Str (''Failed to kill process '' @ proc_id proc @ '':''), Err e]))
          (kill_all sandbox rest))"

definition cleanup :: "Sandbox \<Rightarrow> Process list \<Rightarrow> unit io" where
  "cleanup sandbox existingProcesses =
     (if length existingProcesses > 0 then
        io_then
          (console_log
             [Str (''Found '' @ show_nat (length existingProcesses)
                   @ '' existing Moltbot processes. Cleaning up...'')])
          (io_then (kill_all sandbox existingProcesses)
             (call (Call_setTimeout 2000) (\<lambda>tr. Inr ())))
      else io_return ())"

definition start_gateway :: "Sandbox \<Rightarrow> MoltbotEnv \<Rightarrow> Process io" where
  "start_gateway sandbox env =
     io_then (console_log [Str ''Starting new Moltbot gateway...''])
       (let envVars = buildEnvVars env;
            command = ''/usr/local/bin/start-moltbot.sh'';
            options = (if length (map fst envVars) > 0 then Some envVars else None)
        in io_then (console_log [Str ''Starting process with command:'', Str command])
             (io_then
                (console_log [Str ''Environment vars being passed:'', Strs (map fst envVars)])
                (io_catch
                   (io_bind
                      (call (Call_startProcess command options)
                         (\<lambda>tr. startProcess sandbox tr command options))
                      (\<lambda>process.
                         io_then
                           (console_log
                              [Str ''Process started with id:'', Str (proc_id process),
                               Str ''status:'', Str (status process)])
                           (io_return process)))
                   (\<lambda>startErr.
                      io_then (console_error [Str ''Failed to start process:'', Err startErr])
                        (io_throw startErr)))))"

definition log_if_nonempty :: "string \<Rightarrow> string \<Rightarrow> unit io" where
  "log_if_nonempty label text =
     (if text \<noteq> [] then console_log [Str label, Str text] else io_return ())"

definition wait_until_ready :: "nat \<Rightarrow> nat \<Rightarrow> Sandbox \<Rightarrow> Process \<Rightarrow> unit io" where
  "wait_until_ready MOLTBOT_PORT STARTUP_TIMEOUT_MS sandbox process =
     io_catch
       (io_then
          (console_log
             [Str ''[Gateway] Waiting for Moltbot gateway to be ready on port'', Num MOLTBOT_PORT])
          (io_then
             (call (Call_waitForPort process MOLTBOT_PORT STARTUP_TIMEOUT_MS)
                (\<lambda>tr. unit_result
                         (waitForPort sandbox tr process MOLTBOT_PORT STARTUP_TIMEOUT_MS)))
             (io_then (console_log [Str ''[Gateway] Moltbot gateway is ready!''])
                (io_bind (call (Call_getLogs process) (\<lambda>tr. getLogs sandbox tr process))
                   (\<lambda>logs.
                      io_then (log_if_nonempty ''[Gateway] stdout:'' (stdout logs))
                        (log_if_nonempty ''[Gateway] stderr:'' (stderr logs)))))))
       (\<lambda>e.
          io_then (console_error [Str ''[Gateway] waitForPort failed:'', Err e])
            (io_catch
               (io_bind (call (Call_getLogs process) (\<lambda>tr. getLogs sandbox tr process))
                  (\<lambda>logs.
                     io_then
                       (console_error
                          [Str ''[Gateway] startup failed. Stderr:'', Str (stderr logs)])
                       (io_then
                          (console_error
                             [Str ''[Gateway] startup failed. Stdout:'', Str (stdout logs)])
                          (io_throw
                             (Error (''Moltbot gateway failed to start. Stderr: ''
                                     @ (if stderr logs \<noteq> [] then stderr logs
                                        else ''(empty)'')))))))
               (\<lambda>logErr.
                  io_then (console_error [Str ''[Gateway] Failed to get logs:'', Err logErr])
                    (io_throw e))))"

definition ensureMoltbotGateway :: "nat \<Rightarrow> nat \<Rightarrow> Sandbox \<Rightarrow> MoltbotEnv \<Rightarrow> Process io" where
  "ensureMoltbotGateway MOLTBOT_PORT STARTUP_TIMEOUT_MS sandbox env =
     io_then (call Call_mountR2Storage (\<lambda>tr. unit_result (mountR2Storage sandbox tr)))
       (io_bind (findExistingMoltbotProcesses sandbox)
          (\<lambda>existingProcesses.
             io_then (cleanup sandbox existingProcesses)
               (io_bind (start_gateway sandbox env)
                  (\<lambda>process.
                     io_then
                       (wait_until_ready MOLTBOT_PORT STARTUP_TIMEOUT_MS sandbox process)
                       (io_then (console_log [Str ''[Gateway] Verifying gateway health...''])
                          (io_return process))))))"


section \<open>The access middleware\<close>

text \<open>
  What the middleware reads of a request: the \<open>token\<close> parameter of the URL as
  \<open>searchParams.get\<close> returns it, the \<open>Cookie\<close> header and the
  \<open>CF-Access-JWT-Assertion\<close> header. The options are the response type and
  \<open>redirectOnMissing\<close>, which is false when it is left out.
\<close>

record Request =
  query_token :: "string option"
  cookie_header :: "string option"
  jwt_header :: "string option"

datatype response_type = Json | Html

record AccessMiddlewareOptions =
  response_type :: response_type
  redirectOnMissing :: "bool option"

text \<open>
  The responses. A JSON response has its fields and its status. The HTML bodies are
  fixed templates, named here by what they say; two of them carry the team domain.
\<close>

datatype html_page =
    Invalid_gateway_token
  | Admin_UI_not_configured
  | Missing_access_token string
  | Session_invalid_or_expired string

datatype response =
    Json_response "(string \<times> string) list" nat
  | Html_response html_page nat
  | Redirect_response string nat

text \<open>
  The handler that follows the middleware and \<open>verifyAccessJWT\<close> (a function of this
  repository that is not among the sources) are answers of the platform.
\<close>

record JWTPayload =
  payload_email :: string
  payload_name :: string

record Access_platform =
  next_handler :: "event list \<Rightarrow> thrown option"
  verifyAccessJWT :: "event list \<Rightarrow> string \<Rightarrow> string \<Rightarrow> string \<Rightarrow> thrown + JWTPayload"

definition isDevMode :: "MoltbotEnv \<Rightarrow> bool" where
  "isDevMode env = (DEV_MODE env = Some ''true'')"

definition isE2ETestMode :: "MoltbotEnv \<Rightarrow> bool" where
  "isE2ETestMode env = (E2E_TEST_MODE env = Some ''true'')"

text \<open>
  \<open>s.split(c)\<close> for a separator of one character, and \<open>s.trim()\<close>. The characters
  of a header are bytes; the white space among them is tab, line feed, vertical tab, form
  feed, carriage return, space and the no-break space.
\<close>

fun split_on :: "char \<Rightarrow> string \<Rightarrow> string list" where
  "split_on c [] = [[]]"
| "split_on c (x # xs) =
     (if x = c then [] # split_on c xs
      else (x # hd (split_on c xs)) # tl (split_on c xs))"

definition is_white_space :: "char \<Rightarrow> bool" where
  "is_white_space c =
     (c \<in> set [CHR 0x09, CHR 0x0A, CHR 0x0B, CHR 0x0C, CHR 0x0D, CHR 0x20, CHR 0xA0])"

definition trim :: "string \<Rightarrow> string" where
  "trim s = rev (dropWhile is_white_space (rev (dropWhile is_white_space s)))"

text \<open>\<open>xs[1]\<close> of an array: \<open>undefined\<close> when the array is shorter.\<close>

definition second :: "string list \<Rightarrow> string option" where
  "second xs = (case xs of _ # y # _ \<Rightarrow> Some y | _ \<Rightarrow> None)"

text \<open>The cookie the gateway token is compared with, and \<open>extractJWT\<close>.\<close>

definition cookieToken :: "Request \<Rightarrow> string option" where
  "cookieToken req =
     (case cookie_header req of
        None \<Rightarrow> None
      | Some cookieHeader \<Rightarrow>
          (case find (\<lambda>c. startsWith c ''moltbot-token='')
                  (map trim (split_on CHR '';'' cookieHeader)) of
             None \<Rightarrow> None
           | Some c \<Rightarrow> second (split_on CHR ''='' c)))"

definition extractJWT :: "Request \<Rightarrow> string option" where
  "extractJWT req =
     (let jwtHeader = jwt_header req;
          jwtCookie =
            (case cookie_header req of
               None \<Rightarrow> None
             | Some cookieHeader \<Rightarrow>
                 (case find (\<lambda>cookie. startsWith (trim cookie) ''CF_Authorization='')
                         (split_on CHR '';'' cookieHeader) of
                    None \<Rightarrow> None
                  | Some cookie \<Rightarrow> second (split_on CHR ''='' cookie)))
      in or_else (or_else jwtHeader jwtCookie) None)"


text \<open>
  The middleware that \<open>createAccessMiddleware\<close> returns, from its first line to its
  last: \<open>grant\<close> is \<open>c.set('accessUser', ...)\<close> followed by \<open>next()\<close>, and the
  value is the response returned, \<open>None\<close> when the middleware returns what \<open>next\<close>
  gave.
\<close>

definition set_accessUser :: "string \<Rightarrow> string \<Rightarrow> unit io" where
  "set_accessUser email name = (\<lambda>tr. (tr @ [Set_accessUser email name], Inr ()))"

definition grant :: "Access_platform \<Rightarrow> string \<Rightarrow> string \<Rightarrow> response option io" where
  "grant platform email name =
     io_then (set_accessUser email name)
       (io_then (call Call_next (\<lambda>tr. unit_result (next_handler platform tr)))
          (io_return None))"

definition token_matches :: "MoltbotEnv \<Rightarrow> Request \<Rightarrow> bool" where
  "token_matches env req =
     (let gatewayToken = MOLTBOT_GATEWAY_TOKEN env
      in truthy gatewayToken
         \<and> (query_token req = gatewayToken \<or> cookieToken req = gatewayToken))"

definition respond_not_configured :: "response_type \<Rightarrow> MoltbotEnv \<Rightarrow> response" where
  "respond_not_configured type env =
     (if truthy (MOLTBOT_GATEWAY_TOKEN env) then
        (if type = Json
         then Json_response
                [(''error'', ''Unauthorized''),
                 (''hint'', ''Provide ?token=... or configured Cloudflare Access'')] 401
         else Html_response Invalid_gateway_token 401)
      else if type = Json
      then Json_response
             [(''error'', ''Cloudflare Access not configured''),
              (''hint'', ''Set CF_ACCESS_TEAM_DOMAIN and CF_ACCESS_AUD environment variables'')]
             500
      else Html_response Admin_UI_not_configured 500)"

definition respond_missing_jwt :: "response_type \<Rightarrow> bool \<Rightarrow> string \<Rightarrow> response" where
  "respond_missing_jwt type redirect teamDomain =
     (if type = Html \<and> redirect then Redirect_response (''https://'' @ teamDomain) 302
      else if type = Json
      then Json_response
             [(''error'', ''Unauthorized''),
              (''hint'', ''Missing Cloudflare Access JWT. Ensure this route is protected by Cloudflare Access.'')]
             401
      else Html_response (Missing_access_token teamDomain) 401)"

definition verify_jwt ::
  "response_type \<Rightarrow> Access_platform \<Rightarrow> string \<Rightarrow> string \<Rightarrow> string \<Rightarrow> response option io"
  where
  "verify_jwt type platform jwt teamDomain expectedAud =
     io_catch
       (io_bind
          (call (Call_verifyAccessJWT jwt teamDomain expectedAud)
             (\<lambda>tr. verifyAccessJWT platform tr jwt teamDomain expectedAud))
          (\<lambda>payload. grant platform (payload_email payload) (payload_name payload)))
       (\<lambda>err.
          io_then (console_error [Str ''Access JWT verification failed:'', Err err])
            (io_return
               (Some
                  (if type = Json
                   then Json_response
                          [(''error'', ''Unauthorized''),
                           (''details'',
                            (case err of Error message \<Rightarrow> message
                             | Thrown_value v \<Rightarrow> ''JWT verification failed''))]
                          401
                   else Html_response (Session_invalid_or_expired teamDomain) 401))))"

definition authenticate ::
  "AccessMiddlewareOptions \<Rightarrow> Access_platform \<Rightarrow> MoltbotEnv \<Rightarrow> Request
     \<Rightarrow> response option io" where
  "authenticate options platform env req =
     (let type = response_type options;
          redirect = (case redirectOnMissing options of Some b \<Rightarrow> b | None \<Rightarrow> False);
          teamDomain = CF_ACCESS_TEAM_DOMAIN env;
          expectedAud = CF_ACCESS_AUD env;
          jwt = extractJWT req
      in if token_matches env req then grant platform ''admin@token'' ''Token Admin''
         else if \<not> truthy teamDomain \<or> \<not> truthy expectedAud
         then io_return (Some (respond_not_configured type env))
         else if \<not> truthy jwt
         then io_return (Some (respond_missing_jwt type redirect (the teamDomain)))
         else verify_jwt type platform (the jwt) (the teamDomain) (the expectedAud))"

definition createAccessMiddleware ::
  "AccessMiddlewareOptions \<Rightarrow> Access_platform \<Rightarrow> MoltbotEnv \<Rightarrow> Request
     \<Rightarrow> response option io" where
  "createAccessMiddleware options platform env req =
     (if isDevMode env \<or> isE2ETestMode env
      then grant platform ''dev@localhost'' ''Dev User''
      else authenticate options platform env req)"

text \<open>
  The requests of a trace that reach the next handler, and its calls of
  \<open>verifyAccessJWT\<close>.
\<close>

definition next_called :: "event list \<Rightarrow> bool" where
  "next_called evs = (Call_next \<in> set evs)"

fun verifications_of :: "event list \<Rightarrow> (string \<times> string \<times> string) list" where
  "verifications_of [] = []"
| "verifications_of (Call_verifyAccessJWT jwt team aud # evs) =
     (jwt, team, aud) # verifications_of evs"
| "verifications_of (_ # evs) = verifications_of evs"

text \<open>
  For the examples: a platform whose next handler returns and whose verification accepts
  nothing, and a request that carries neither token nor cookie.
\<close>

definition strict_platform :: Access_platform where
  "strict_platform =
     \<lparr> next_handler = (\<lambda>tr. None),
       verifyAccessJWT = (\<lambda>tr jwt team aud. Inl (Error ''invalid token'')) \<rparr>"

definition bare_request :: Request where
  "bare_request = \<lparr> query_token = None, cookie_header = None, jwt_header = None \<rparr>"

definition json_options :: AccessMiddlewareOptions where
  "json_options = \<lparr> response_type = Json, redirectOnMissing = None \<rparr>"

definition env_dev_mode :: MoltbotEnv where
  "env_dev_mode = empty_env \<lparr> DEV_MODE := Some ''true'' \<rparr>"

definition env_e2e_mode :: MoltbotEnv where
  "env_e2e_mode = empty_env \<lparr> E2E_TEST_MODE := Some ''true'' \<rparr>"

definition env_not_exact :: MoltbotEnv where
  "env_not_exact = empty_env \<lparr> DEV_MODE := Some ''TRUE'', E2E_TEST_MODE := Some ''1'' \<rparr>"


section \<open>The supervisor at the end of the launch script\<close>

text \<open>
  The last lines of the launch script run the gateway and, behind \<open>||\<close>, the function
  \<open>keep_alive_on_crash\<close>. The programs they run belong to the system, so their results
  are parameters: whether the gateway exits and with which status, and, for each turn of
  the loop, the status of the redirected \<open>echo\<close>, of \<open>tail\<close> and of \<open>nc\<close>, and the
  lines of the log file when \<open>tail\<close> reads it. The script runs under \<open>set -e\<close>, and
  \<open>keep_alive_on_crash\<close> is the last command of its \<open>||\<close> list, so a command that
  fails in it ends the script with that status.
\<close>

record responder_turn =
  echo_status :: nat
  tail_status :: nat
  nc_status :: nat
  log_lines :: "string list"

record supervisor_world =
  gateway_exit :: "string list \<Rightarrow> nat option"
  turn :: "nat \<Rightarrow> responder_turn"

datatype supervisor_state = Gateway_running | Still_serving | Script_exit nat

text \<open>The command line of the gateway, with and without the token.\<close>

definition gateway_command :: "string \<Rightarrow> string list" where
  "gateway_command CLAWDBOT_GATEWAY_TOKEN =
     (if CLAWDBOT_GATEWAY_TOKEN \<noteq> []
      then [''clawdbot'', ''gateway'', ''--port'', ''18789'', ''--verbose'',
            ''--allow-unconfigured'', ''--bind'', ''lan'', ''--token'', CLAWDBOT_GATEWAY_TOKEN]
      else [''clawdbot'', ''gateway'', ''--port'', ''18789'', ''--verbose'',
            ''--allow-unconfigured'', ''--bind'', ''lan''])"

text \<open>
  \<open>tail -n 50\<close> of the log, and the file the loop writes for \<open>nc\<close>: the text that
  \<open>echo -e\<close> prints, with its final line feed, followed by the tail of the log.
\<close>

definition tail_n :: "nat \<Rightarrow> string list \<Rightarrow> string list" where
  "tail_n k ls = drop (length ls - k) ls"

definition unlines :: "string list \<Rightarrow> string" where
  "unlines ls = concat (map (\<lambda>l. l @ [CHR 0x0A]) ls)"

definition response_txt :: "nat \<Rightarrow> string list \<Rightarrow> string" where
  "response_txt exit_code ls =
     ''HTTP/1.1 200 OK'' @ [CHR 0x0D, CHR 0x0A]
     @ ''Content-Type: text/plain; charset=utf-8'' @ [CHR 0x0D, CHR 0x0A]
     @ [CHR 0x0D, CHR 0x0A]
     @ ''CRASH DETECTED (Exit code: '' @ show_nat exit_code @ '')'' @ [CHR 0x0A]
     @ [CHR 0x0A]
     @ ''--- LAST 50 LINES OF LOG ---'' @ [CHR 0x0A]
     @ [CHR 0x0A]
     @ unlines (tail_n 50 ls)"

text \<open>
  The loop \<open>while true\<close> of \<open>keep_alive_on_crash\<close>, observed for a number of turns:
  \<open>i\<close> is the turn it is in. The result is the list of files handed to \<open>nc\<close>, one
  for each connection it answers, and the state after the turns observed.
\<close>

fun responder_loop ::
  "nat \<Rightarrow> supervisor_world \<Rightarrow> nat \<Rightarrow> nat \<Rightarrow> string list \<times> supervisor_state" where
  "responder_loop exit_code world i 0 = ([], Still_serving)"
| "responder_loop exit_code world i (Suc n) =
     (let t = turn world i in
      if echo_status t \<noteq> 0 then ([], Script_exit (echo_status t))
      else if tail_status t \<noteq> 0 then ([], Script_exit (tail_status t))
      else if nc_status t \<noteq> 0
      then ([response_txt exit_code (log_lines t)], Script_exit (nc_status t))
      else (case responder_loop exit_code world (Suc i) n of
              (served, state) \<Rightarrow> (response_txt exit_code (log_lines t) # served, state)))"

definition keep_alive_on_crash ::
  "nat \<Rightarrow> supervisor_world \<Rightarrow> nat \<Rightarrow> string list \<times> supervisor_state" where
  "keep_alive_on_crash exit_code world n = responder_loop exit_code world 0 n"

text \<open>
  \<open>clawdbot gateway ... || keep_alive_on_crash $?\<close>, in either branch of the test for
  the token: the function runs when the gateway's status is not 0, and otherwise the
  script is at its end, with status 0.
\<close>

definition supervise_gateway ::
  "string \<Rightarrow> supervisor_world \<Rightarrow> nat \<Rightarrow> string list \<times> supervisor_state" where
  "supervise_gateway CLAWDBOT_GATEWAY_TOKEN world n =
     (case gateway_exit world (gateway_command CLAWDBOT_GATEWAY_TOKEN) of
        None \<Rightarrow> ([], Gateway_running)
      | Some exit_code \<Rightarrow>
          if exit_code = 0 then ([], Script_exit 0)
          else keep_alive_on_crash exit_code world n)"

text \<open>
  Worlds for the examples. In the first the gateway exits with the given status, every
  command of the loop succeeds and the log has the two lines shown. In the second the
  gateway exits with status 1 and \<open>nc\<close> cannot listen: it fails with status 1.
\<close>

definition calm_world :: "nat \<Rightarrow> supervisor_world" where
  "calm_world exit_code =
     \<lparr> gateway_exit = (\<lambda>argv. Some exit_code),
       turn = (\<lambda>i. \<lparr> echo_status = 0, tail_status = 0, nc_status = 0,
                      log_lines = [''Starting Moltbot Gateway...'', ''Killed''] \<rparr>) \<rparr>"

definition busy_port_world :: supervisor_world where
  "busy_port_world =
     \<lparr> gateway_exit = (\<lambda>argv. Some 1),
       turn = (\<lambda>i. \<lparr> echo_status = 0, tail_status = 0, nc_status = 1,
                      log_lines = [''Starting Moltbot Gateway...''] \<rparr>) \<rparr>"


section \<open>The service configuration\<close>

text \<open>
  The configuration file is a JSON document. It is modelled by its sections as the
  service's schema has them, each object a record whose members may be missing: the
  script tests them with \<open>||\<close> and \<open>?.\<close> before it writes. A document in which one of
  these members is not an object (or array) of the expected kind is outside the model.
  An object whose keys are data, the providers and the model allowlist, is an association
  list: a key is looked up with \<open>map_of\<close>, set with \<open>AList.update\<close> and deleted with
  \<open>AList.delete\<close>.
\<close>

record ModelEntry =
  entry_id :: string
  entry_name :: "string option"
  entry_contextWindow :: nat

record ProviderBlock =
  provider_baseUrl :: string
  provider_api :: string
  provider_models :: "ModelEntry list option"
  provider_apiKey :: "string option"

record AllowEntry =
  model_alias :: "string option"

record ModelSelection =
  primary :: "string option"

record AgentDefaults =
  workspace :: "string option"
  model :: "ModelSelection option"
  defaults_models :: "(string \<times> AllowEntry) list option"

record Agents =
  defaults :: "AgentDefaults option"

record GatewayAuth =
  auth_token :: "string option"

record ControlUi =
  allowInsecureAuth :: "bool option"

record Gateway =
  gateway_port :: "nat option"
  gateway_mode :: "string option"
  trustedProxies :: "string list option"
  auth :: "GatewayAuth option"
  controlUi :: "ControlUi option"

record Telegram =
  telegram_botToken :: "string option"
  telegram_enabled :: "bool option"
  telegram_dmPolicy :: "string option"
  telegram_allowFrom :: "string list option"

record DiscordDm =
  dm_policy :: "string option"
  dm_allowFrom :: "string list option"

record Discord =
  discord_token :: "string option"
  discord_enabled :: "bool option"
  discord_dm :: "DiscordDm option"

record Slack =
  slack_botToken :: "string option"
  slack_appToken :: "string option"
  slack_enabled :: "bool option"

record Channels =
  telegram :: "Telegram option"
  discord :: "Discord option"
  slack :: "Slack option"

record Models =
  providers :: "(string \<times> ProviderBlock) list option"

record Config =
  agents :: "Agents option"
  gateway :: "Gateway option"
  channels :: "Channels option"
  models :: "Models option"

text \<open>\<open>x || {}\<close> for each kind of object, and \<open>{}\<close> itself.\<close>

definition empty_config :: Config where
  "empty_config = \<lparr> agents = None, gateway = None, channels = None, models = None \<rparr>"

definition or_empty_agents :: "Agents option \<Rightarrow> Agents" where
  "or_empty_agents x = (case x of Some a \<Rightarrow> a | None \<Rightarrow> \<lparr> defaults = None \<rparr>)"

definition or_empty_defaults :: "AgentDefaults option \<Rightarrow> AgentDefaults" where
  "or_empty_defaults x =
     (case x of Some d \<Rightarrow> d
      | None \<Rightarrow> \<lparr> workspace = None, model = None, defaults_models = None \<rparr>)"

definition or_empty_model :: "ModelSelection option \<Rightarrow> ModelSelection" where
  "or_empty_model x = (case x of Some m \<Rightarrow> m | None \<Rightarrow> \<lparr> primary = None \<rparr>)"

definition or_empty_gateway :: "Gateway option \<Rightarrow> Gateway" where
  "or_empty_gateway x =
     (case x of Some g \<Rightarrow> g
      | None \<Rightarrow> \<lparr> gateway_port = None, gateway_mode = None, trustedProxies = None,
                  auth = None, controlUi = None \<rparr>)"

definition or_empty_auth :: "GatewayAuth option \<Rightarrow> GatewayAuth" where
  "or_empty_auth x = (case x of Some a \<Rightarrow> a | None \<Rightarrow> \<lparr> auth_token = None \<rparr>)"

definition or_empty_controlUi :: "ControlUi option \<Rightarrow> ControlUi" where
  "or_empty_controlUi x = (case x of Some u \<Rightarrow> u | None \<Rightarrow> \<lparr> allowInsecureAuth = None \<rparr>)"

definition or_empty_channels :: "Channels option \<Rightarrow> Channels" where
  "or_empty_channels x =
     (case x of Some c \<Rightarrow> c | None \<Rightarrow> \<lparr> telegram = None, discord = None, slack = None \<rparr>)"

definition or_empty_telegram :: "Telegram option \<Rightarrow> Telegram" where
  "or_empty_telegram x =
     (case x of Some t \<Rightarrow> t
      | None \<Rightarrow> \<lparr> telegram_botToken = None, telegram_enabled = None,
                  telegram_dmPolicy = None, telegram_allowFrom = None \<rparr>)"

definition or_empty_dm :: "DiscordDm option \<Rightarrow> DiscordDm" where
  "or_empty_dm x = (case x of Some d \<Rightarrow> d | None \<Rightarrow> \<lparr> dm_policy = None, dm_allowFrom = None \<rparr>)"

definition or_empty_discord :: "Discord option \<Rightarrow> Discord" where
  "or_empty_discord x =
     (case x of Some d \<Rightarrow> d
      | None \<Rightarrow> \<lparr> discord_token = None, discord_enabled = None, discord_dm = None \<rparr>)"

definition or_empty_slack :: "Slack option \<Rightarrow> Slack" where
  "or_empty_slack x =
     (case x of Some t \<Rightarrow> t
      | None \<Rightarrow> \<lparr> slack_botToken = None, slack_appToken = None, slack_enabled = None \<rparr>)"

definition or_empty_models :: "Models option \<Rightarrow> Models" where
  "or_empty_models x = (case x of Some m \<Rightarrow> m | None \<Rightarrow> \<lparr> providers = None \<rparr>)"

definition or_empty_list :: "'a list option \<Rightarrow> 'a list" where
  "or_empty_list x = (case x of Some l \<Rightarrow> l | None \<Rightarrow> [])"


section \<open>Config synthesis in the launch script\<close>

text \<open>
  The node program of the launch script changes the parsed document in place. Each
  assignment below a section is a function on the whole document: \<open>in_gateway f\<close>
  applies \<open>f\<close> to \<open>config.gateway || {}\<close> and stores the result, and likewise for the
  other sections. The first lines of the program create the sections it later assigns
  to, so from there on \<open>in_model\<close>, \<open>in_gateway\<close> and \<open>in_channels\<close> are plain
  assignments. \<open>process.env\<close> maps a name to its string when it is set.
\<close>

type_synonym process_env = "string \<Rightarrow> string option"

definition in_agents :: "(Agents \<Rightarrow> Agents) \<Rightarrow> Config \<Rightarrow> Config" where
  "in_agents f config = config \<lparr> agents := Some (f (or_empty_agents (agents config))) \<rparr>"

definition in_defaults :: "(AgentDefaults \<Rightarrow> AgentDefaults) \<Rightarrow> Config \<Rightarrow> Config" where
  "in_defaults f =
     in_agents (\<lambda>a. a \<lparr> defaults := Some (f (or_empty_defaults (defaults a))) \<rparr>)"

definition in_model :: "(ModelSelection \<Rightarrow> ModelSelection) \<Rightarrow> Config \<Rightarrow> Config" where
  "in_model f = in_defaults (\<lambda>d. d \<lparr> model := Some (f (or_empty_model (model d))) \<rparr>)"

definition in_allowlist ::
  "((string \<times> AllowEntry) list \<Rightarrow> (string \<times> AllowEntry) list) \<Rightarrow> Config \<Rightarrow> Config" where
  "in_allowlist f =
     in_defaults (\<lambda>d. d \<lparr> defaults_models := Some (f (or_empty_list (defaults_models d))) \<rparr>)"

definition in_gateway :: "(Gateway \<Rightarrow> Gateway) \<Rightarrow> Config \<Rightarrow> Config" where
  "in_gateway f config = config \<lparr> gateway := Some (f (or_empty_gateway (gateway config))) \<rparr>"

definition in_channels :: "(Channels \<Rightarrow> Channels) \<Rightarrow> Config \<Rightarrow> Config" where
  "in_channels f config =
     config \<lparr> channels := Some (f (or_empty_channels (channels config))) \<rparr>"

definition in_providers ::
  "((string \<times> ProviderBlock) list \<Rightarrow> (string \<times> ProviderBlock) list) \<Rightarrow> Config \<Rightarrow> Config"
  where
  "in_providers f config =
     config \<lparr> models :=
       Some ((or_empty_models (models config))
               \<lparr> providers :=
                   Some (f (or_empty_list (providers (or_empty_models (models config))))) \<rparr>) \<rparr>"

text \<open>The provider blocks of a document, and the block of one provider.\<close>

definition providers_of :: "Config \<Rightarrow> (string \<times> ProviderBlock) list" where
  "providers_of config = or_empty_list (providers (or_empty_models (models config)))"

definition provider_block :: "Config \<Rightarrow> string \<Rightarrow> ProviderBlock option" where
  "provider_block config k = map_of (providers_of config) k"

definition allowlist_of :: "Config \<Rightarrow> (string \<times> AllowEntry) list" where
  "allowlist_of config =
     or_empty_list (defaults_models (or_empty_defaults (defaults (or_empty_agents (agents config)))))"

definition primary_of :: "Config \<Rightarrow> string option" where
  "primary_of config =
     primary (or_empty_model (model (or_empty_defaults (defaults (or_empty_agents (agents config))))))"

text \<open>"Ensure nested objects exist".\<close>

definition ensure_nested :: "Config \<Rightarrow> Config" where
  "ensure_nested =
     in_channels id \<circ> in_gateway id \<circ> in_model id \<circ> in_defaults id \<circ> in_agents id"

text \<open>
  "Clean up any broken anthropic provider config from previous runs": the block is
  deleted when it has a \<open>models\<close> array in which some entry has no name (\<open>!m.name\<close>:
  the name is missing or empty).
\<close>

definition hasInvalidModels :: "ModelEntry list \<Rightarrow> bool" where
  "hasInvalidModels ms = list_ex (\<lambda>m. \<not> truthy (entry_name m)) ms"

definition purge_broken_anthropic :: "Config \<Rightarrow> Config" where
  "purge_broken_anthropic config =
     (case models config of
        None \<Rightarrow> config
      | Some ms \<Rightarrow>
          (case providers ms of
             None \<Rightarrow> config
           | Some ps \<Rightarrow>
               (case map_of ps ''anthropic'' of
                  None \<Rightarrow> config
                | Some block \<Rightarrow>
                    (case provider_models block of
                       None \<Rightarrow> config
                     | Some entries \<Rightarrow>
                         if hasInvalidModels entries
                         then config \<lparr> models :=
                                Some (ms \<lparr> providers := Some (AList.delete ''anthropic'' ps) \<rparr>) \<rparr>
                         else config))))"

text \<open>The gateway section.\<close>

definition configure_gateway :: "process_env \<Rightarrow> Config \<Rightarrow> Config" where
  "configure_gateway env config =
     (let config =
            in_gateway (\<lambda>g. g \<lparr> gateway_port := Some 18789, gateway_mode := Some ''local'',
                                trustedProxies := Some [''10.1.0.0''] \<rparr>) config;
          config =
            (if truthy (env ''CLAWDBOT_GATEWAY_TOKEN'')
             then in_gateway
                    (\<lambda>g. g \<lparr> auth := Some ((or_empty_auth (auth g))
                                 \<lparr> auth_token := env ''CLAWDBOT_GATEWAY_TOKEN'' \<rparr>) \<rparr>) config
             else config)
      in if env ''CLAWDBOT_DEV_MODE'' = Some ''true''
         then in_gateway
                (\<lambda>g. g \<lparr> controlUi := Some ((or_empty_controlUi (controlUi g))
                             \<lparr> allowInsecureAuth := Some True \<rparr>) \<rparr>) config
         else config)"


text \<open>The channels: Telegram, Discord and Slack.\<close>

definition configure_telegram :: "process_env \<Rightarrow> Config \<Rightarrow> Config" where
  "configure_telegram env config =
     (if truthy (env ''TELEGRAM_BOT_TOKEN'') then
        (let telegramDmPolicy =
               (if truthy (env ''TELEGRAM_DM_POLICY'') then the (env ''TELEGRAM_DM_POLICY'')
                else ''pairing'')
         in in_channels
              (\<lambda>c. c \<lparr> telegram := Some
                 (let t = (or_empty_telegram (telegram c))
                            \<lparr> telegram_botToken := env ''TELEGRAM_BOT_TOKEN'',
                              telegram_enabled := Some True,
                              telegram_dmPolicy := Some telegramDmPolicy \<rparr>
                  in if truthy (env ''TELEGRAM_DM_ALLOW_FROM'')
                     then t \<lparr> telegram_allowFrom :=
                                Some (split_on CHR '','' (the (env ''TELEGRAM_DM_ALLOW_FROM''))) \<rparr>
                     else if telegramDmPolicy = ''open''
                     then t \<lparr> telegram_allowFrom := Some [''*''] \<rparr>
                     else t) \<rparr>)
              config)
      else config)"

definition configure_discord :: "process_env \<Rightarrow> Config \<Rightarrow> Config" where
  "configure_discord env config =
     (if truthy (env ''DISCORD_BOT_TOKEN'') then
        (let discordDmPolicy =
               (if truthy (env ''DISCORD_DM_POLICY'') then the (env ''DISCORD_DM_POLICY'')
                else ''pairing'')
         in in_channels
              (\<lambda>c. c \<lparr> discord := Some
                 (let d = (or_empty_discord (discord c))
                            \<lparr> discord_token := env ''DISCORD_BOT_TOKEN'',
                              discord_enabled := Some True \<rparr>;
                      dm = (or_empty_dm (discord_dm d)) \<lparr> dm_policy := Some discordDmPolicy \<rparr>
                  in d \<lparr> discord_dm := Some
                           (if discordDmPolicy = ''open''
                            then dm \<lparr> dm_allowFrom := Some [''*''] \<rparr>
                            else dm) \<rparr>) \<rparr>)
              config)
      else config)"

definition configure_slack :: "process_env \<Rightarrow> Config \<Rightarrow> Config" where
  "configure_slack env config =
     (if truthy (env ''SLACK_BOT_TOKEN'') \<and> truthy (env ''SLACK_APP_TOKEN'') then
        in_channels
          (\<lambda>c. c \<lparr> slack := Some
             ((or_empty_slack (slack c))
                \<lparr> slack_botToken := env ''SLACK_BOT_TOKEN'',
                  slack_appToken := env ''SLACK_APP_TOKEN'',
                  slack_enabled := Some True \<rparr>) \<rparr>)
          config
      else config)"

text \<open>The base URL and the two tests that choose the provider.\<close>

definition baseUrl :: "process_env \<Rightarrow> string" where
  "baseUrl env =
     stripTrailingSlashes
       (case or_else (or_else (env ''AI_GATEWAY_BASE_URL'') (env ''ANTHROPIC_BASE_URL''))
               (Some [])
        of Some u \<Rightarrow> u | None \<Rightarrow> [])"

definition isGoogle :: "process_env \<Rightarrow> bool" where
  "isGoogle env =
     (endsWith (baseUrl env) ''/google'' \<or> includes_str (baseUrl env) ''gemini''
      \<or> (truthy (env ''CF_AI_GATEWAY_MODEL'')
          \<and> startsWith (the (env ''CF_AI_GATEWAY_MODEL'')) ''google/''))"

definition isOpenAI :: "process_env \<Rightarrow> bool" where
  "isOpenAI env =
     (endsWith (baseUrl env) ''/openai''
      \<or> (truthy (env ''CF_AI_GATEWAY_MODEL'')
          \<and> startsWith (the (env ''CF_AI_GATEWAY_MODEL'')) ''openai/''))"

text \<open>The three model catalogs.\<close>

definition anthropicModels :: "ModelEntry list" where
  "anthropicModels =
     [\<lparr> entry_id = ''claude-sonnet-4-5-20250929'', entry_name = Some ''Claude Sonnet 4.5'',
        entry_contextWindow = 200000 \<rparr>,
      \<lparr> entry_id = ''claude-haiku-4-5-20251001'', entry_name = Some ''Claude Haiku 4.5'',
        entry_contextWindow = 200000 \<rparr>,
      \<lparr> entry_id = ''claude-3-5-sonnet-latest'', entry_name = Some ''Claude 3.5 Sonnet'',
        entry_contextWindow = 200000 \<rparr>,
      \<lparr> entry_id = ''claude-3-opus-latest'', entry_name = Some ''Claude 3 Opus'',
        entry_contextWindow = 200000 \<rparr>]"

definition openaiModels :: "ModelEntry list" where
  "openaiModels =
     [\<lparr> entry_id = ''gpt-5.2'', entry_name = Some ''GPT-5.2'', entry_contextWindow = 200000 \<rparr>,
      \<lparr> entry_id = ''gpt-5'', entry_name = Some ''GPT-5'', entry_contextWindow = 200000 \<rparr>,
      \<lparr> entry_id = ''gpt-4.5-preview'', entry_name = Some ''GPT-4.5 Preview'',
        entry_contextWindow = 128000 \<rparr>]"

definition googleModels :: "ModelEntry list" where
  "googleModels =
     [\<lparr> entry_id = ''gemini-3-flash'', entry_name = Some ''Gemini 3 Flash'',
        entry_contextWindow = 1000000 \<rparr>,
      \<lparr> entry_id = ''gemini-3-pro-preview'', entry_name = Some ''Gemini 3 Pro'',
        entry_contextWindow = 2000000 \<rparr>,
      \<lparr> entry_id = ''gemini-2.0-flash'', entry_name = Some ''Gemini 2.0 Flash'',
        entry_contextWindow = 1000000 \<rparr>]"

text \<open>
  \<open>models[namespace + m.id] = { alias: m.name }\<close>, the loop \<open>forEach\<close> over a
  catalog with one namespace, and the assignment of the primary model.
\<close>

definition allow ::
  "string \<Rightarrow> ModelEntry \<Rightarrow> (string \<times> AllowEntry) list \<Rightarrow> (string \<times> AllowEntry) list" where
  "allow namespace m al =
     AList.update (namespace @ entry_id m) \<lparr> model_alias = entry_name m \<rparr> al"

definition allow_all ::
  "string \<Rightarrow> ModelEntry list \<Rightarrow> (string \<times> AllowEntry) list \<Rightarrow> (string \<times> AllowEntry) list"
  where
  "allow_all namespace ms al = fold (allow namespace) ms al"

definition set_primary :: "process_env \<Rightarrow> string \<Rightarrow> Config \<Rightarrow> Config" where
  "set_primary env default_model =
     (let envModel = env ''CF_AI_GATEWAY_MODEL''
      in in_model (\<lambda>m. m \<lparr> primary := Some (if truthy envModel then the envModel
                                              else default_model) \<rparr>))"


text \<open>The three branches that write the provider block, and the choice among them.\<close>

definition configure_google :: "process_env \<Rightarrow> Config \<Rightarrow> Config" where
  "configure_google env config =
     (let config = in_providers id config;
          config =
            (if endsWith (baseUrl env) ''/openai'' then
               in_allowlist
                 (fold (\<lambda>m al. allow ''openai/google/'' m (allow ''google/'' m al)) googleModels)
                 (in_providers
                    (AList.update ''openai''
                       \<lparr> provider_baseUrl = baseUrl env, provider_api = ''openai-responses'',
                         provider_models = Some googleModels, provider_apiKey = None \<rparr>)
                    config)
             else
               in_allowlist (allow_all ''google/'' googleModels)
                 (in_providers
                    (AList.update ''google''
                       \<lparr> provider_baseUrl =
                           (if baseUrl env \<noteq> [] then baseUrl env
                            else ''https://generativelanguage.googleapis.com''),
                         provider_api = ''google-generative-ai'',
                         provider_models = Some googleModels,
                         provider_apiKey =
                           (if truthy (env ''OPENAI_API_KEY'') then env ''OPENAI_API_KEY''
                            else None) \<rparr>)
                    config))
      in set_primary env ''google/gemini-3-flash'' config)"

definition configure_openai :: "process_env \<Rightarrow> Config \<Rightarrow> Config" where
  "configure_openai env config =
     (let config = in_providers id config;
          config =
            in_providers
              (AList.update ''openai''
                 \<lparr> provider_baseUrl = baseUrl env, provider_api = ''openai-responses'',
                   provider_models = Some openaiModels, provider_apiKey = None \<rparr>)
              config;
          config = in_allowlist (allow_all ''openai/'' openaiModels) config
      in set_primary env ''openai/gpt-5.2'' config)"

definition configure_anthropic :: "process_env \<Rightarrow> Config \<Rightarrow> Config" where
  "configure_anthropic env config =
     (let config = in_providers id config;
          providerConfig =
            \<lparr> provider_baseUrl =
                (if baseUrl env \<noteq> [] then baseUrl env else ''https://api.anthropic.com''),
              provider_api = ''anthropic-messages'',
              provider_models = Some anthropicModels,
              provider_apiKey =
                (if truthy (env ''ANTHROPIC_API_KEY'') then env ''ANTHROPIC_API_KEY''
                 else None) \<rparr>;
          config = in_providers (AList.update ''anthropic'' providerConfig) config;
          config = in_allowlist (allow_all ''anthropic/'' anthropicModels) config
      in set_primary env ''anthropic/claude-sonnet-4-5-20250929'' config)"

definition configure_provider :: "process_env \<Rightarrow> Config \<Rightarrow> Config" where
  "configure_provider env config =
     (if isGoogle env then configure_google env config
      else if isOpenAI env then configure_openai env config
      else configure_anthropic env config)"

text \<open>
  The whole program: the document read from the file, or \<open>{}\<close> when it cannot be read
  or parsed (\<open>None\<close>), goes through the steps in the order of the source, and the result
  is what is written back.
\<close>

definition parsed_or_empty :: "Config option \<Rightarrow> Config" where
  "parsed_or_empty parsed = (case parsed of Some config \<Rightarrow> config | None \<Rightarrow> empty_config)"

definition synthesize :: "process_env \<Rightarrow> Config option \<Rightarrow> Config" where
  "synthesize env parsed =
     configure_provider env
       (configure_slack env
          (configure_discord env
             (configure_telegram env
                (configure_gateway env
                   (purge_broken_anthropic (ensure_nested (parsed_or_empty parsed)))))))"

text \<open>
  For the statements about provider blocks: the key under which the program writes its
  block, the keys among the three providers that have a block in a document, and whether
  a block has a model entry with no name.
\<close>

definition written_provider :: "process_env \<Rightarrow> string" where
  "written_provider env =
     (if isGoogle env then (if endsWith (baseUrl env) ''/openai'' then ''openai'' else ''google'')
      else if isOpenAI env then ''openai''
      else ''anthropic'')"

definition populated :: "Config \<Rightarrow> string list" where
  "populated config =
     filter (\<lambda>k. provider_block config k \<noteq> None) [''anthropic'', ''openai'', ''google'']"

definition structurally_invalid :: "ProviderBlock \<Rightarrow> bool" where
  "structurally_invalid block =
     (case provider_models block of None \<Rightarrow> False | Some entries \<Rightarrow> hasInvalidModels entries)"

text \<open>
  Documents and environments for the examples: a document left by an earlier run with
  an OpenAI block, one whose OpenAI block has an entry without a name, and one whose
  Anthropic block has such an entry; an environment with nothing set, one with an OpenAI
  endpoint and the Google model, and one with an OpenAI endpoint only.
\<close>

definition config_with :: "(string \<times> ProviderBlock) list \<Rightarrow> Config" where
  "config_with ps = empty_config \<lparr> models := Some \<lparr> providers = Some ps \<rparr> \<rparr>"

definition stale_openai_block :: ProviderBlock where
  "stale_openai_block =
     \<lparr> provider_baseUrl = ''https://gateway.ai.cloudflare.com/v1/acc/gw/openai'',
       provider_api = ''openai-responses'', provider_models = Some openaiModels,
       provider_apiKey = None \<rparr>"

definition nameless_entry :: ModelEntry where
  "nameless_entry = \<lparr> entry_id = ''old-model'', entry_name = None, entry_contextWindow = 1000 \<rparr>"

definition broken_openai_block :: ProviderBlock where
  "broken_openai_block =
     \<lparr> provider_baseUrl = ''https://api.openai.com/v1'', provider_api = ''openai-responses'',
       provider_models = Some [nameless_entry], provider_apiKey = None \<rparr>"

definition broken_anthropic_block :: ProviderBlock where
  "broken_anthropic_block =
     \<lparr> provider_baseUrl = ''https://api.anthropic.com'', provider_api = ''anthropic-messages'',
       provider_models = Some [nameless_entry], provider_apiKey = None \<rparr>"

definition no_env :: process_env where
  "no_env = Map.empty"

definition google_via_openai_env :: process_env where
  "google_via_openai_env =
     map_of [(''AI_GATEWAY_BASE_URL'', ''https://gateway.ai.cloudflare.com/v1/acc/gw/openai/''),
             (''CF_AI_GATEWAY_MODEL'', ''google/gemini-3-flash'')]"

definition openai_env :: process_env where
  "openai_env =
     map_of [(''AI_GATEWAY_BASE_URL'', ''https://gateway.ai.cloudflare.com/v1/acc/gw/openai'')]"


section \<open>Reading a trace\<close>

text \<open>
  The processes a trace kills and the processes it starts, in order; the line that
  reports a failed kill; and the property that every kill the platform answers with an
  error is followed at once by that line. The platform's answer to a kill is read at the
  trace before the call, \<open>tr @ a\<close>, where \<open>tr\<close> is what came before \<open>evs\<close>.
\<close>

fun kills_of :: "event list \<Rightarrow> Process list" where
  "kills_of [] = []"
| "kills_of (Call_kill p # evs) = p # kills_of evs"
| "kills_of (_ # evs) = kills_of evs"

fun starts_of :: "event list \<Rightarrow> (string \<times> env_vars option) list" where
  "starts_of [] = []"
| "starts_of (Call_startProcess c opts # evs) = (c, opts) # starts_of evs"
| "starts_of (_ # evs) = starts_of evs"

definition kill_failure_log :: "Process \<Rightarrow> thrown \<Rightarrow> event" where
  "kill_failure_log p e =
     Console_log [Str (''Failed to kill process '' @ proc_id p @ '':''), Err e]"

definition failures_logged :: "Sandbox \<Rightarrow> event list \<Rightarrow> event list \<Rightarrow> bool" where
  "failures_logged sandbox tr evs =
     (\<forall>a b p e. evs = a @ Call_kill p # b \<and> kill sandbox (tr @ a) p = Some e \<longrightarrow>
        (\<exists>b'. b = kill_failure_log p e # b'))"

text \<open>The options \<open>ensureMoltbotGateway\<close> passes to \<open>startProcess\<close>.\<close>

definition launch_options :: "MoltbotEnv \<Rightarrow> env_vars option" where
  "launch_options env = (if buildEnvVars env \<noteq> [] then Some (buildEnvVars env) else None)"

text \<open>
  Two platforms for the examples. On the first, the new process never opens its port:
  \<open>waitForPort\<close> throws, and \<open>getLogs\<close> returns a standard error of \<open>boom\<close>. On the
  second, four processes are listed, one of them a CLI call, the kill of \<open>p3\<close> fails,
  and the new process becomes ready.
\<close>

definition failing_sandbox :: Sandbox where
  "failing_sandbox =
     \<lparr> mountR2Storage = (\<lambda>tr. None),
       listProcesses = (\<lambda>tr. Inr []),
       kill = (\<lambda>tr p. None),
       startProcess =
         (\<lambda>tr c opts. Inr \<lparr> proc_id = ''p1'', command = c, status = ''starting'' \<rparr>),
       waitForPort = (\<lambda>tr p port t. Some (Error ''waitForPort timed out'')),
       getLogs = (\<lambda>tr p. Inr \<lparr> stdout = [], stderr = ''boom'' \<rparr>) \<rparr>"

definition proc1 :: Process where
  "proc1 = \<lparr> proc_id = ''p1'', command = ''/usr/local/bin/start-moltbot.sh'',
             status = ''starting'' \<rparr>"

definition proc2 :: Process where
  "proc2 = \<lparr> proc_id = ''p2'', command = ''clawdbot devices list --json'',
             status = ''running'' \<rparr>"

definition proc3 :: Process where
  "proc3 = \<lparr> proc_id = ''p3'', command = ''clawdbot gateway --port 18789'',
             status = ''running'' \<rparr>"

definition proc4 :: Process where
  "proc4 = \<lparr> proc_id = ''p4'', command = ''bash /usr/local/bin/start-moltbot.sh'',
             status = ''running'' \<rparr>"

definition busy_sandbox :: Sandbox where
  "busy_sandbox =
     \<lparr> mountR2Storage = (\<lambda>tr. None),
       listProcesses = (\<lambda>tr. Inr [proc1, proc2, proc3, proc4]),
       kill = (\<lambda>tr p. if proc_id p = ''p3'' then Some (Error ''kill failed'') else None),
       startProcess =
         (\<lambda>tr c opts. Inr \<lparr> proc_id = ''p5'', command = c, status = ''starting'' \<rparr>),
       waitForPort = (\<lambda>tr p port t. None),
       getLogs = (\<lambda>tr p. Inr \<lparr> stdout = ''ready'', stderr = [] \<rparr>) \<rparr>"


section \<open>Theorems\<close>

subsection \<open>Facts about maps, strings and traces\<close>

lemmas io_defs = io_return_def io_throw_def io_bind_def io_then_def io_catch_def
  console_log_def console_error_def call_def unit_result_def

lemma kills_of_append [simp]: "kills_of (xs @ ys) = kills_of xs @ kills_of ys"
  by (induction xs rule: kills_of.induct) simp_all

lemma starts_of_append [simp]: "starts_of (xs @ ys) = starts_of xs @ starts_of ys"
  by (induction xs rule: starts_of.induct) simp_all

lemma failures_logged_Nil: "failures_logged sandbox tr []"
  by (simp add: failures_logged_def)

lemma failures_logged_Cons:
  assumes "\<And>p. ev \<noteq> Call_kill p" "failures_logged sandbox (tr @ [ev]) evs"
  shows "failures_logged sandbox tr (ev # evs)"
  unfolding failures_logged_def
proof (intro allI impI)
  fix a b p e
  assume h: "ev # evs = a @ Call_kill p # b \<and> kill sandbox (tr @ a) p = Some e"
  show "\<exists>b'. b = kill_failure_log p e # b'"
  proof (cases a)
    case Nil
    with h assms(1) show ?thesis by simp
  next
    case (Cons x a')
    with h have "evs = a' @ Call_kill p # b" "kill sandbox ((tr @ [ev]) @ a') p = Some e"
      by simp_all
    with assms(2) show ?thesis unfolding failures_logged_def by blast
  qed
qed

lemma failures_logged_kill_ok:
  assumes "kill sandbox tr p = None" "failures_logged sandbox (tr @ [Call_kill p]) evs"
  shows "failures_logged sandbox tr (Call_kill p # evs)"
  unfolding failures_logged_def
proof (intro allI impI)
  fix a b q e
  assume h: "Call_kill p # evs = a @ Call_kill q # b \<and> kill sandbox (tr @ a) q = Some e"
  show "\<exists>b'. b = kill_failure_log q e # b'"
  proof (cases a)
    case Nil
    with h assms(1) show ?thesis by simp
  next
    case (Cons x a')
    with h have "evs = a' @ Call_kill q # b"
      "kill sandbox ((tr @ [Call_kill p]) @ a') q = Some e"
      by simp_all
    with assms(2) show ?thesis unfolding failures_logged_def by blast
  qed
qed

lemma failures_logged_kill_failed:
  assumes "kill sandbox tr p = Some e"
    "failures_logged sandbox (tr @ [Call_kill p, kill_failure_log p e]) evs"
  shows "failures_logged sandbox tr (Call_kill p # kill_failure_log p e # evs)"
  unfolding failures_logged_def
proof (intro allI impI)
  fix a b q e'
  assume h: "Call_kill p # kill_failure_log p e # evs = a @ Call_kill q # b
             \<and> kill sandbox (tr @ a) q = Some e'"
  show "\<exists>b'. b = kill_failure_log q e' # b'"
  proof (cases a)
    case Nil
    with h assms(1) show ?thesis by auto
  next
    case (Cons x a')
    note a = this
    show ?thesis
    proof (cases a')
      case Nil
      with a h show ?thesis by (simp add: kill_failure_log_def)
    next
      case (Cons y a'')
      with a h have "evs = a'' @ Call_kill q # b"
        "kill sandbox ((tr @ [Call_kill p, kill_failure_log p e]) @ a'') q = Some e'"
        by simp_all
      with assms(2) show ?thesis unfolding failures_logged_def by blast
    qed
  qed
qed

lemma failures_logged_prepend:
  assumes "kills_of xs = []" "failures_logged sandbox (tr @ xs) evs"
  shows "failures_logged sandbox tr (xs @ evs)"
  using assms
proof (induction xs arbitrary: tr)
  case Nil
  then show ?case by simp
next
  case (Cons x xs)
  have nk: "\<And>p. x \<noteq> Call_kill p" using Cons.prems(1) by (cases x) auto
  have "kills_of xs = []" using Cons.prems(1) by (cases x) auto
  moreover have "failures_logged sandbox ((tr @ [x]) @ xs) evs" using Cons.prems(2) by simp
  ultimately have "failures_logged sandbox (tr @ [x]) (xs @ evs)" by (rule Cons.IH)
  with nk show ?case by (simp add: failures_logged_Cons)
qed

lemma kills_of_empty_no_kill: "kills_of ys = [] \<Longrightarrow> ys \<noteq> us @ Call_kill p # b"
  by auto

lemma failures_logged_append:
  assumes "kills_of ys = []" "failures_logged sandbox tr evs"
  shows "failures_logged sandbox tr (evs @ ys)"
  unfolding failures_logged_def
proof (intro allI impI)
  fix a b p e
  assume h: "evs @ ys = a @ Call_kill p # b \<and> kill sandbox (tr @ a) p = Some e"
  then consider us where "evs = a @ us" "us @ ys = Call_kill p # b"
    | us where "evs @ us = a" "ys = us @ Call_kill p # b"
    by (auto simp: append_eq_append_conv2)
  then show "\<exists>b'. b = kill_failure_log p e # b'"
  proof cases
    case 1
    show ?thesis
    proof (cases us)
      case Nil
      with 1 assms(1) show ?thesis by auto
    next
      case (Cons u us')
      with 1 have "evs = a @ Call_kill p # us'" "b = us' @ ys" by simp_all
      with assms(2) h show ?thesis unfolding failures_logged_def by fastforce
    qed
  next
    case 2
    with assms(1) show ?thesis using kills_of_empty_no_kill by blast
  qed
qed


lemma truthy_the: "truthy v \<Longrightarrow> Some (the v) = v"
  by (cases v) simp_all

lemma split_on_not_empty: "split_on c s \<noteq> []"
  by (induction s) simp_all

lemma map_of_set_if_truthy:
  "map_of (set_if_truthy k v envVars) k' =
     (if k' = k \<and> truthy v then v else map_of envVars k')"
  by (cases v) (auto simp: set_if_truthy_def update_conv')

lemma passthrough_keeps_api_keys:
  "map_of (passthrough_vars env envVars) ''ANTHROPIC_API_KEY''
     = map_of envVars ''ANTHROPIC_API_KEY''"
  "map_of (passthrough_vars env envVars) ''OPENAI_API_KEY'' = map_of envVars ''OPENAI_API_KEY''"
  by (simp_all add: passthrough_vars_def map_of_set_if_truthy)

lemma base_url_keeps_api_keys:
  "map_of (base_url_vars env envVars) ''ANTHROPIC_API_KEY''
     = map_of envVars ''ANTHROPIC_API_KEY''"
  "map_of (base_url_vars env envVars) ''OPENAI_API_KEY'' = map_of envVars ''OPENAI_API_KEY''"
  by (simp_all add: base_url_vars_def Let_def update_conv')

lemma api_key_vars_ANTHROPIC:
  "map_of (api_key_vars env []) ''ANTHROPIC_API_KEY'' =
     (if truthy (gateway_apiKey env) \<and> \<not> isOpenAIGateway env then gateway_apiKey env
      else if truthy (ANTHROPIC_API_KEY env) then ANTHROPIC_API_KEY env else None)"
  by (cases "truthy (gateway_apiKey env)"; cases "isOpenAIGateway env";
      cases "truthy (ANTHROPIC_API_KEY env)"; cases "truthy (OPENAI_API_KEY env)")
     (simp_all add: api_key_vars_def Let_def update_conv' truthy_the)

lemma api_key_vars_OPENAI:
  "map_of (api_key_vars env []) ''OPENAI_API_KEY'' =
     (if truthy (gateway_apiKey env) \<and> isOpenAIGateway env then gateway_apiKey env
      else if truthy (OPENAI_API_KEY env) then OPENAI_API_KEY env else None)"
  by (cases "truthy (gateway_apiKey env)"; cases "isOpenAIGateway env";
      cases "truthy (ANTHROPIC_API_KEY env)"; cases "truthy (OPENAI_API_KEY env)")
     (simp_all add: api_key_vars_def Let_def update_conv' truthy_the)

lemma buildEnvVars_empty: "buildEnvVars empty_env = []"
  by (simp add: buildEnvVars_def passthrough_vars_def base_url_vars_def api_key_vars_def
      empty_env_def set_if_truthy_def or_else_def normalizedBaseUrl_def resolved_baseUrl_def
      isOpenAIGateway_def gateway_apiKey_def)

lemma sample_envs:
  "gateway_apiKey env_gateway_openai = Some ''gw-key''"
  "normalizedBaseUrl env_gateway_openai
     = Some ''https://gateway.ai.cloudflare.com/v1/acc/gw/openai''"
  "isOpenAIGateway env_gateway_openai"
  "gateway_apiKey env_gateway_anthropic = Some ''gw-key''"
  "\<not> isOpenAIGateway env_gateway_anthropic"
  "gateway_apiKey env_direct_keys = None"
  by (simp_all add: env_gateway_openai_def env_gateway_anthropic_def env_direct_keys_def
      empty_env_def gateway_apiKey_def or_else_def isOpenAIGateway_def normalizedBaseUrl_def
      resolved_baseUrl_def stripTrailingSlashes_def endsWith_def suffix_to_prefix)

lemma sample_env_keys:
  "ANTHROPIC_API_KEY env_gateway_openai = Some ''sk-ant''"
  "OPENAI_API_KEY env_gateway_openai = Some ''sk-oai''"
  "ANTHROPIC_API_KEY env_gateway_anthropic = Some ''sk-ant''"
  "OPENAI_API_KEY env_gateway_anthropic = Some ''sk-oai''"
  "ANTHROPIC_API_KEY env_direct_keys = Some ''sk-ant''"
  "OPENAI_API_KEY env_direct_keys = Some ''sk-oai''"
  "AI_GATEWAY_API_KEY env_gateway_openai = Some ''gw-key''"
  "AI_GATEWAY_API_KEY env_gateway_anthropic = None"
  "CLOUDFLARE_AI_GATEWAY_API_KEY env_gateway_anthropic = Some ''gw-key''"
  "AI_GATEWAY_API_KEY env_direct_keys = None"
  "CLOUDFLARE_AI_GATEWAY_API_KEY env_direct_keys = None"
  by (simp_all add: env_gateway_openai_def env_gateway_anthropic_def env_direct_keys_def
      empty_env_def)

lemma scan_processes_filter:
  "scan_processes found processes =
     found @ filter (\<lambda>p. isGatewayProcess p \<and> \<not> isCliCommand p) processes"
  by (induction processes arbitrary: found) simp_all

lemma sample_processes:
  "isGatewayProcess proc1" "\<not> isCliCommand proc1"
  "\<not> isGatewayProcess proc2" "isCliCommand proc2"
  "isGatewayProcess proc3" "\<not> isCliCommand proc3"
  "isGatewayProcess proc4" "\<not> isCliCommand proc4"
  by (simp_all add: isGatewayProcess_def isCliCommand_def includes_str_def
      proc1_def proc2_def proc3_def proc4_def sublist_code)

lemma sample_found:
  "filter (\<lambda>p. isGatewayProcess p \<and> \<not> isCliCommand p) [proc1, proc2, proc3, proc4]
     = [proc1, proc3, proc4]"
  by (simp add: sample_processes)

lemma busy_sandbox_answers:
  "mountR2Storage busy_sandbox tr = None"
  "kill busy_sandbox tr p = (if proc_id p = ''p3'' then Some (Error ''kill failed'') else None)"
  "startProcess busy_sandbox tr c opts =
     Inr \<lparr> proc_id = ''p5'', command = c, status = ''starting'' \<rparr>"
  "waitForPort busy_sandbox tr q port t = None"
  "getLogs busy_sandbox tr q = Inr \<lparr> stdout = ''ready'', stderr = [] \<rparr>"
  by (simp_all add: busy_sandbox_def)

lemma failing_sandbox_answers:
  "mountR2Storage failing_sandbox tr = None"
  "listProcesses failing_sandbox tr = Inr []"
  "startProcess failing_sandbox tr c opts =
     Inr \<lparr> proc_id = ''p1'', command = c, status = ''starting'' \<rparr>"
  "waitForPort failing_sandbox tr q port t = Some (Error ''waitForPort timed out'')"
  "getLogs failing_sandbox tr q = Inr \<lparr> stdout = [], stderr = ''boom'' \<rparr>"
  by (simp_all add: failing_sandbox_def)


subsection \<open>Restore decision\<close>

text \<open>
  C2. For every pair of manifests the restore decision returns a status, 0 (true) or
  1 (false), so it never aborts. It is false when there is no remote manifest, true when
  there is a remote manifest and no local one, and otherwise true exactly when the remote
  epoch is strictly greater than the local epoch, where a timestamp that \<open>date -d\<close> cannot
  read counts as epoch 0. Equal timestamps give false.
\<close>

theorem should_restore_decision:
  "should_restore_from_r2 date_d None local0 = 1
   \<and> should_restore_from_r2 date_d (Some r) None = 0
   \<and> (should_restore_from_r2 date_d (Some r) (Some l) = 0
        \<longleftrightarrow> epoch_of date_d r > epoch_of date_d l)
   \<and> (should_restore_from_r2 date_d (Some r) (Some l) = 1
        \<longleftrightarrow> \<not> epoch_of date_d r > epoch_of date_d l)
   \<and> (date_d t = None \<longrightarrow> epoch_of date_d t = 0)
   \<and> (date_d t = Some e \<longrightarrow> epoch_of date_d t = e)
   \<and> should_restore_from_r2 date_d (Some t) (Some t) = 1"
  by (simp add: should_restore_from_r2_def epoch_of_def Let_def)

theorem should_restore_decision_witness:
  "should_restore_from_r2 sample_date_d None (Some ''2024-01-01T00:00:00Z'') = 1
   \<and> should_restore_from_r2 sample_date_d (Some ''2024-01-02T00:00:00Z'') None = 0
   \<and> should_restore_from_r2 sample_date_d
        (Some ''2024-01-02T00:00:00Z'') (Some ''2024-01-01T00:00:00Z'') = 0
   \<and> should_restore_from_r2 sample_date_d (Some ''garbage'') (Some ''2024-01-01T00:00:00Z'') = 1
   \<and> sample_date_d ''garbage'' = None \<and> epoch_of sample_date_d ''garbage'' = 0
   \<and> sample_date_d ''2024-01-02T00:00:00Z'' = Some 1704153600
   \<and> epoch_of sample_date_d ''2024-01-02T00:00:00Z'' = 1704153600
   \<and> should_restore_from_r2 sample_date_d
        (Some ''2024-01-02T00:00:00Z'') (Some ''2024-01-02T00:00:00Z'') = 1"
  using should_restore_decision [of sample_date_d "Some ''2024-01-01T00:00:00Z''"
      "''2024-01-02T00:00:00Z''" "''2024-01-01T00:00:00Z''" "''garbage''" 1704153600]
    should_restore_decision [of sample_date_d None
      "''garbage''" "''2024-01-01T00:00:00Z''" "''2024-01-02T00:00:00Z''" 1704153600]
  by (simp add: sample_date_d_def epoch_of_def)


subsection \<open>Discovery\<close>

text \<open>
  C9. When the platform returns a process list, discovery returns, in the order of the
  list, exactly the processes whose command contains the launch script's name or the
  gateway command of the CLI and contains neither of the two CLI-only commands, the
  device listing and the version query. So every process returned matches a gateway
  signature, none matches a CLI-only command, and no process with these two properties is
  left out. Where no listed command matches both a gateway signature and a CLI-only
  command, the result is exactly the processes that match a gateway signature.
\<close>

theorem discovery_returns_gateway_processes:
  assumes "listProcesses sandbox tr = Inr processes"
  shows "\<exists>found. findExistingMoltbotProcesses sandbox tr = (tr @ [Call_listProcesses], Inr found)
           \<and> found = filter (\<lambda>p. isGatewayProcess p \<and> \<not> isCliCommand p) processes
           \<and> (\<forall>p \<in> set found.
                 (includes_str (command p) ''start-moltbot.sh''
                  \<or> includes_str (command p) ''clawdbot gateway'')
                 \<and> \<not> includes_str (command p) ''clawdbot devices''
                 \<and> \<not> includes_str (command p) ''clawdbot --version'')
           \<and> (\<forall>p \<in> set processes.
                 (includes_str (command p) ''start-moltbot.sh''
                  \<or> includes_str (command p) ''clawdbot gateway'')
                 \<and> \<not> includes_str (command p) ''clawdbot devices''
                 \<and> \<not> includes_str (command p) ''clawdbot --version''
                 \<longrightarrow> p \<in> set found)
           \<and> ((\<forall>p \<in> set processes. \<not> (isGatewayProcess p \<and> isCliCommand p))
                 \<longrightarrow> found = filter isGatewayProcess processes)"
proof -
  let ?found = "filter (\<lambda>p. isGatewayProcess p \<and> \<not> isCliCommand p) processes"
  have run: "findExistingMoltbotProcesses sandbox tr = (tr @ [Call_listProcesses], Inr ?found)"
    using assms by (simp add: findExistingMoltbotProcesses_def io_defs scan_processes_filter)
  have same: "(\<forall>p \<in> set processes. \<not> (isGatewayProcess p \<and> isCliCommand p))
                 \<longrightarrow> ?found = filter isGatewayProcess processes"
    by (auto intro: filter_cong)
  from run same show ?thesis
    by (auto simp: isGatewayProcess_def isCliCommand_def)
qed

theorem discovery_returns_gateway_processes_witness:
  "listProcesses busy_sandbox [] = Inr [proc1, proc2, proc3, proc4]
   \<and> findExistingMoltbotProcesses busy_sandbox []
       = ([Call_listProcesses], Inr [proc1, proc3, proc4])
   \<and> isCliCommand proc2"
proof -
  have l: "listProcesses busy_sandbox [] = Inr [proc1, proc2, proc3, proc4]"
    by (simp add: busy_sandbox_def)
  from discovery_returns_gateway_processes [OF l] obtain found where
    "findExistingMoltbotProcesses busy_sandbox [] = ([] @ [Call_listProcesses], Inr found)"
    "found = filter (\<lambda>p. isGatewayProcess p \<and> \<not> isCliCommand p) [proc1, proc2, proc3, proc4]"
    by blast
  with l sample_found sample_processes(4) show ?thesis by simp
qed


subsection \<open>Reconciliation before the launch\<close>

lemma kill_all_trace:
  "\<exists>evs. kill_all sandbox ps tr = (tr @ evs, Inr ()) \<and> kills_of evs = ps \<and> starts_of evs = []
         \<and> failures_logged sandbox tr evs"
proof (induction ps arbitrary: tr)
  case Nil
  show ?case by (simp add: io_defs failures_logged_Nil)
next
  case (Cons p ps)
  let ?l = "Console_log
    [Str (''Killing process '' @ proc_id p @ '' (status: '' @ status p @ '')...'')]"
  show ?case
  proof (cases "kill sandbox (tr @ [?l]) p")
    case None
    from Cons.IH [of "tr @ [?l, Call_kill p]"] obtain evs where
      evs: "kill_all sandbox ps (tr @ [?l, Call_kill p]) = (tr @ [?l, Call_kill p] @ evs, Inr ())"
      "kills_of evs = ps" "starts_of evs = []"
      "failures_logged sandbox (tr @ [?l, Call_kill p]) evs" by auto
    have "failures_logged sandbox tr (?l # Call_kill p # evs)"
      using None evs(4) by (intro failures_logged_Cons failures_logged_kill_ok) simp_all
    with None evs(1-3) show ?thesis
      by (intro exI [of _ "[?l, Call_kill p] @ evs"]) (simp add: io_defs)
  next
    case (Some e)
    let ?f = "kill_failure_log p e"
    from Cons.IH [of "tr @ [?l, Call_kill p, ?f]"] obtain evs where
      evs: "kill_all sandbox ps (tr @ [?l, Call_kill p, ?f])
              = (tr @ [?l, Call_kill p, ?f] @ evs, Inr ())"
      "kills_of evs = ps" "starts_of evs = []"
      "failures_logged sandbox (tr @ [?l, Call_kill p, ?f]) evs" by auto
    have "failures_logged sandbox tr (?l # Call_kill p # ?f # evs)"
      using Some evs(4) by (intro failures_logged_Cons failures_logged_kill_failed) simp_all
    with Some evs(1-3) show ?thesis
      by (intro exI [of _ "[?l, Call_kill p, ?f] @ evs"])
         (simp add: io_defs kill_failure_log_def)
  qed
qed

lemma discovery_total:
  "\<exists>evs found. findExistingMoltbotProcesses sandbox tr = (tr @ evs, Inr found)
      \<and> kills_of evs = [] \<and> starts_of evs = []"
  by (cases "listProcesses sandbox tr")
     (simp_all add: findExistingMoltbotProcesses_def io_defs)

lemma cleanup_trace:
  "\<exists>evs. cleanup sandbox ps tr = (tr @ evs, Inr ()) \<and> kills_of evs = ps \<and> starts_of evs = []
         \<and> failures_logged sandbox tr evs"
proof (cases ps)
  case Nil
  then show ?thesis by (simp add: cleanup_def io_defs failures_logged_Nil)
next
  case (Cons p ps')
  let ?l = "Console_log [Str (''Found '' @ show_nat (length ps)
                   @ '' existing Moltbot processes. Cleaning up...'')]"
  from kill_all_trace [of sandbox ps "tr @ [?l]"] obtain evs where
    evs: "kill_all sandbox ps (tr @ [?l]) = ((tr @ [?l]) @ evs, Inr ())"
    "kills_of evs = ps" "starts_of evs = []" "failures_logged sandbox (tr @ [?l]) evs"
    by blast
  have "failures_logged sandbox tr ([?l] @ evs)"
    using evs(4) by (intro failures_logged_prepend) simp_all
  then have "failures_logged sandbox tr (([?l] @ evs) @ [Call_setTimeout 2000])"
    by (rule failures_logged_append [rotated]) simp
  with evs(1-3) Cons show ?thesis
    by (intro exI [of _ "([?l] @ evs) @ [Call_setTimeout 2000]"])
       (simp add: cleanup_def io_defs)
qed

lemma start_gateway_trace:
  "\<exists>logs post r. start_gateway sandbox env tr =
      (tr @ logs @ Call_startProcess ''/usr/local/bin/start-moltbot.sh'' (launch_options env)
                   # post, r)
      \<and> kills_of logs = [] \<and> starts_of logs = []"
proof -
  let ?logs = "[Console_log [Str ''Starting new Moltbot gateway...''],
     Console_log [Str ''Starting process with command:'', Str ''/usr/local/bin/start-moltbot.sh''],
     Console_log [Str ''Environment vars being passed:'', Strs (map fst (buildEnvVars env))]]"
  let ?c = "''/usr/local/bin/start-moltbot.sh''"
  have k: "kills_of ?logs = [] \<and> starts_of ?logs = []" by simp
  show ?thesis
  proof (cases "startProcess sandbox (tr @ ?logs) ?c (launch_options env)")
    case (Inl e)
    then have "start_gateway sandbox env tr =
      (tr @ ?logs @ Call_startProcess ?c (launch_options env)
          # [Console_error [Str ''Failed to start process:'', Err e]], Inl e)"
      by (simp add: start_gateway_def io_defs Let_def launch_options_def)
    with k show ?thesis by blast
  next
    case (Inr p)
    then have "start_gateway sandbox env tr =
      (tr @ ?logs @ Call_startProcess ?c (launch_options env)
          # [Console_log [Str ''Process started with id:'', Str (proc_id p),
                               Str ''status:'', Str (status p)]], Inr p)"
      by (simp add: start_gateway_def io_defs Let_def launch_options_def)
    with k show ?thesis by blast
  qed
qed

lemma wait_until_ready_extends:
  "\<exists>evs r. wait_until_ready port timeout sandbox process tr = (tr @ evs, r)"
  by (auto simp: wait_until_ready_def io_defs log_if_nonempty_def
        split: sum.splits option.splits prod.splits)


text \<open>
  C4. In every run in which the storage mount returns, each process that discovery
  returned is killed, whatever its status, before the new gateway process is started:
  the trace of the run is a part \<open>pre\<close>, the call that starts the launch script, and
  a rest; the kills in \<open>pre\<close> are exactly the discovered processes, in order, and
  nothing is started in \<open>pre\<close>. This holds for all answers of the platform to the
  kills, so a failed kill aborts neither the remaining kills nor the launch, and each
  failed kill is followed at once by the console line that reports it.
\<close>

theorem reconciliation_kills_all_before_start:
  assumes "mountR2Storage sandbox [] = None"
  shows "\<exists>tr1 found pre post.
      findExistingMoltbotProcesses sandbox [Call_mountR2Storage] = (tr1, Inr found)
    \<and> fst (ensureMoltbotGateway port timeout sandbox env []) =
        pre @ Call_startProcess ''/usr/local/bin/start-moltbot.sh'' (launch_options env) # post
    \<and> kills_of pre = found \<and> starts_of pre = [] \<and> failures_logged sandbox [] pre"
proof -
  let ?M = "[Call_mountR2Storage]"
  let ?start = "Call_startProcess ''/usr/local/bin/start-moltbot.sh'' (launch_options env)"
  obtain dev found where
    d: "findExistingMoltbotProcesses sandbox ?M = (?M @ dev, Inr found)"
       "kills_of dev = []" "starts_of dev = []"
    using discovery_total [of sandbox ?M] by blast
  obtain cev where
    c: "cleanup sandbox found (?M @ dev) = ((?M @ dev) @ cev, Inr ())"
       "kills_of cev = found" "starts_of cev = []" "failures_logged sandbox (?M @ dev) cev"
    using cleanup_trace [of sandbox found "?M @ dev"] by blast
  obtain logs post0 r where
    s: "start_gateway sandbox env ((?M @ dev) @ cev) =
          (((?M @ dev) @ cev) @ logs @ ?start # post0, r)"
       "kills_of logs = []" "starts_of logs = []"
    using start_gateway_trace [of sandbox env "(?M @ dev) @ cev"] by blast
  let ?pre = "(?M @ dev) @ (cev @ logs)"
  have fl: "failures_logged sandbox [] ?pre"
  proof (rule failures_logged_prepend)
    show "kills_of (?M @ dev) = []" using d(2) by simp
    show "failures_logged sandbox ([] @ ?M @ dev) (cev @ logs)"
      using failures_logged_append [OF s(2) c(4)] by simp
  qed
  have ks: "kills_of ?pre = found" "starts_of ?pre = []"
    using d(2,3) c(2,3) s(2,3) by simp_all
  have "\<exists>post. fst (ensureMoltbotGateway port timeout sandbox env []) = ?pre @ ?start # post"
  proof (cases r)
    case (Inl e)
    then show ?thesis
      using assms d(1) c(1) s(1) by (simp add: ensureMoltbotGateway_def io_defs)
  next
    case (Inr p)
    obtain wevs r' where
      w: "wait_until_ready port timeout sandbox p (?pre @ ?start # post0) =
            ((?pre @ ?start # post0) @ wevs, r')"
      using wait_until_ready_extends by blast
    show ?thesis
      using assms d(1) c(1) s(1) Inr w
      by (cases r') (simp_all add: ensureMoltbotGateway_def io_defs)
  qed
  with d(1) fl ks show ?thesis by blast
qed

lemma busy_discovery:
  "findExistingMoltbotProcesses busy_sandbox [Call_mountR2Storage]
     = ([Call_mountR2Storage, Call_listProcesses], Inr [proc1, proc3, proc4])"
  by (simp add: findExistingMoltbotProcesses_def io_defs busy_sandbox_def
      scan_processes_filter sample_processes)

lemma busy_run:
  "fst (ensureMoltbotGateway 18789 180000 busy_sandbox empty_env []) =
     [Call_mountR2Storage, Call_listProcesses,
      Console_log [Str ''Found 3 existing Moltbot processes. Cleaning up...''],
      Console_log [Str ''Killing process p1 (status: starting)...''],
      Call_kill proc1,
      Console_log [Str ''Killing process p3 (status: running)...''],
      Call_kill proc3,
      Console_log [Str ''Failed to kill process p3:'', Err (Error ''kill failed'')],
      Console_log [Str ''Killing process p4 (status: running)...''],
      Call_kill proc4,
      Call_setTimeout 2000,
      Console_log [Str ''Starting new Moltbot gateway...''],
      Console_log [Str ''Starting process with command:'',
                   Str ''/usr/local/bin/start-moltbot.sh''],
      Console_log [Str ''Environment vars being passed:'', Strs []],
      Call_startProcess ''/usr/local/bin/start-moltbot.sh'' None,
      Console_log [Str ''Process started with id:'', Str ''p5'', Str ''status:'',
                   Str ''starting''],
      Console_log [Str ''[Gateway] Waiting for Moltbot gateway to be ready on port'',
                   Num 18789],
      Call_waitForPort
        \<lparr> proc_id = ''p5'', command = ''/usr/local/bin/start-moltbot.sh'',
          status = ''starting'' \<rparr> 18789 180000,
      Console_log [Str ''[Gateway] Moltbot gateway is ready!''],
      Call_getLogs
        \<lparr> proc_id = ''p5'', command = ''/usr/local/bin/start-moltbot.sh'',
          status = ''starting'' \<rparr>,
      Console_log [Str ''[Gateway] stdout:'', Str ''ready''],
      Console_log [Str ''[Gateway] Verifying gateway health...'']]"
  by (simp add: ensureMoltbotGateway_def busy_discovery cleanup_def start_gateway_def
      wait_until_ready_def log_if_nonempty_def buildEnvVars_empty Let_def io_defs
      show_nat.simps digit_char_def busy_sandbox_answers)
     (simp add: proc1_def proc3_def proc4_def)

theorem reconciliation_kills_all_before_start_witness:
  "mountR2Storage busy_sandbox [] = None
   \<and> (\<exists>tr1 found pre post.
        findExistingMoltbotProcesses busy_sandbox [Call_mountR2Storage] = (tr1, Inr found)
      \<and> fst (ensureMoltbotGateway 18789 180000 busy_sandbox empty_env []) =
          pre @ Call_startProcess ''/usr/local/bin/start-moltbot.sh'' (launch_options empty_env)
                # post
      \<and> kills_of pre = found \<and> starts_of pre = [] \<and> failures_logged busy_sandbox [] pre)
   \<and> kills_of (fst (ensureMoltbotGateway 18789 180000 busy_sandbox empty_env []))
       = [proc1, proc3, proc4]
   \<and> status proc1 = ''starting''
   \<and> kill busy_sandbox [] proc3 = Some (Error ''kill failed'')"
  using reconciliation_kills_all_before_start
          [where sandbox = busy_sandbox and port = 18789 and timeout = 180000
             and env = empty_env]
  by (simp add: busy_run busy_sandbox_answers proc1_def proc3_def)


subsection \<open>The readiness gate\<close>

text \<open>
  C3, evaluated where the claim and the code part. The new process never opens its
  port, \<open>waitForPort\<close> throws "waitForPort timed out", and \<open>getLogs\<close> succeeds with a
  standard error of "boom". The run captures the logs and builds the error "Moltbot
  gateway failed to start. Stderr: boom", but that error is thrown inside the \<open>try\<close>
  whose \<open>catch\<close> reports a failed log capture and throws the wait error again: the run
  ends with the wait error, and the descriptive error is only printed.
\<close>

theorem wait_failure_rethrows_original:
  "ensureMoltbotGateway 18789 180000 failing_sandbox empty_env [] =
     ([Call_mountR2Storage, Call_listProcesses,
       Console_log [Str ''Starting new Moltbot gateway...''],
       Console_log [Str ''Starting process with command:'',
                    Str ''/usr/local/bin/start-moltbot.sh''],
       Console_log [Str ''Environment vars being passed:'', Strs []],
       Call_startProcess ''/usr/local/bin/start-moltbot.sh'' None,
       Console_log [Str ''Process started with id:'', Str ''p1'', Str ''status:'',
                    Str ''starting''],
       Console_log [Str ''[Gateway] Waiting for Moltbot gateway to be ready on port'',
                    Num 18789],
       Call_waitForPort
         \<lparr> proc_id = ''p1'', command = ''/usr/local/bin/start-moltbot.sh'',
           status = ''starting'' \<rparr> 18789 180000,
       Console_error [Str ''[Gateway] waitForPort failed:'',
                      Err (Error ''waitForPort timed out'')],
       Call_getLogs
         \<lparr> proc_id = ''p1'', command = ''/usr/local/bin/start-moltbot.sh'',
           status = ''starting'' \<rparr>,
       Console_error [Str ''[Gateway] startup failed. Stderr:'', Str ''boom''],
       Console_error [Str ''[Gateway] startup failed. Stdout:'', Str []],
       Console_error [Str ''[Gateway] Failed to get logs:'',
                      Err (Error ''Moltbot gateway failed to start. Stderr: boom'')]],
      Inl (Error ''waitForPort timed out''))"
  by (simp add: ensureMoltbotGateway_def findExistingMoltbotProcesses_def cleanup_def
      start_gateway_def wait_until_ready_def io_defs failing_sandbox_answers
      buildEnvVars_empty Let_def)

text \<open>
  The same on every platform: whenever \<open>waitForPort\<close> throws, the gate ends with the
  error that \<open>waitForPort\<close> threw, whatever \<open>getLogs\<close> answers.
\<close>

lemma wait_failure_always_rethrown:
  assumes "waitForPort sandbox
     (tr @ [Console_log [Str ''[Gateway] Waiting for Moltbot gateway to be ready on port'',
                         Num port]])
     process port timeout = Some e"
  shows "snd (wait_until_ready port timeout sandbox process tr) = Inl e"
  using assms
  by (simp add: wait_until_ready_def io_defs split: sum.splits)


subsection \<open>The API key\<close>

text \<open>
  C5. The gateway-scoped key is \<open>AI_GATEWAY_API_KEY\<close>, or
  \<open>CLOUDFLARE_AI_GATEWAY_API_KEY\<close> when the first is not set. When it is present it
  goes to \<open>OPENAI_API_KEY\<close> if the normalised base URL ends with \<open>/openai\<close> and to
  \<open>ANTHROPIC_API_KEY\<close> otherwise, whatever the direct key of that provider is; the
  other provider's variable takes its direct key when that is present. When the
  gateway-scoped key is absent, each provider's variable takes its direct key when that is
  present and is not set otherwise. In no case does a direct key replace the
  gateway-scoped key.
\<close>

theorem api_key_resolution:
  "(truthy (gateway_apiKey env) \<and> isOpenAIGateway env \<longrightarrow>
      map_of (buildEnvVars env) ''OPENAI_API_KEY'' = gateway_apiKey env
      \<and> map_of (buildEnvVars env) ''ANTHROPIC_API_KEY'' =
          (if truthy (ANTHROPIC_API_KEY env) then ANTHROPIC_API_KEY env else None))
   \<and> (truthy (gateway_apiKey env) \<and> \<not> isOpenAIGateway env \<longrightarrow>
      map_of (buildEnvVars env) ''ANTHROPIC_API_KEY'' = gateway_apiKey env
      \<and> map_of (buildEnvVars env) ''OPENAI_API_KEY'' =
          (if truthy (OPENAI_API_KEY env) then OPENAI_API_KEY env else None))
   \<and> (\<not> truthy (gateway_apiKey env) \<longrightarrow>
      map_of (buildEnvVars env) ''ANTHROPIC_API_KEY'' =
          (if truthy (ANTHROPIC_API_KEY env) then ANTHROPIC_API_KEY env else None)
      \<and> map_of (buildEnvVars env) ''OPENAI_API_KEY'' =
          (if truthy (OPENAI_API_KEY env) then OPENAI_API_KEY env else None))
   \<and> gateway_apiKey env =
        (if truthy (AI_GATEWAY_API_KEY env) then AI_GATEWAY_API_KEY env
         else CLOUDFLARE_AI_GATEWAY_API_KEY env)
   \<and> (isOpenAIGateway env \<longleftrightarrow>
        (\<exists>u. normalizedBaseUrl env = Some u \<and> endsWith u ''/openai''))"
  by (simp add: buildEnvVars_def passthrough_keeps_api_keys base_url_keeps_api_keys
      api_key_vars_ANTHROPIC api_key_vars_OPENAI gateway_apiKey_def or_else_def
      isOpenAIGateway_def split: option.splits)

theorem api_key_resolution_witness:
  "truthy (gateway_apiKey env_gateway_openai) \<and> isOpenAIGateway env_gateway_openai
   \<and> map_of (buildEnvVars env_gateway_openai) ''OPENAI_API_KEY'' = Some ''gw-key''
   \<and> map_of (buildEnvVars env_gateway_openai) ''ANTHROPIC_API_KEY'' = Some ''sk-ant''
   \<and> truthy (gateway_apiKey env_gateway_anthropic) \<and> \<not> isOpenAIGateway env_gateway_anthropic
   \<and> map_of (buildEnvVars env_gateway_anthropic) ''ANTHROPIC_API_KEY'' = Some ''gw-key''
   \<and> map_of (buildEnvVars env_gateway_anthropic) ''OPENAI_API_KEY'' = Some ''sk-oai''
   \<and> \<not> truthy (gateway_apiKey env_direct_keys)
   \<and> map_of (buildEnvVars env_direct_keys) ''ANTHROPIC_API_KEY'' = Some ''sk-ant''
   \<and> map_of (buildEnvVars env_direct_keys) ''OPENAI_API_KEY'' = Some ''sk-oai''"
  using api_key_resolution [of env_gateway_openai]
    api_key_resolution [of env_gateway_anthropic]
    api_key_resolution [of env_direct_keys]
  by (simp add: sample_envs sample_env_keys)



subsection \<open>The development bypass of the access middleware\<close>

lemma grant_run:
  "grant platform email name tr =
     (tr @ [Set_accessUser email name, Call_next],
      case next_handler platform (tr @ [Set_accessUser email name]) of
        None \<Rightarrow> Inr None | Some e \<Rightarrow> Inl e)"
  by (simp add: grant_def set_accessUser_def io_defs split: option.splits)

lemma verify_jwt_run:
  "\<exists>evs r. verify_jwt type platform jwt team aud tr
      = (tr @ Call_verifyAccessJWT jwt team aud # evs, r)
      \<and> verifications_of evs = []
      \<and> (next_called evs \<longrightarrow> (\<exists>payload. verifyAccessJWT platform tr jwt team aud = Inr payload))"
proof (cases "verifyAccessJWT platform tr jwt team aud")
  case (Inl e)
  then show ?thesis
    by (simp add: verify_jwt_def io_defs next_called_def)
next
  case (Inr payload)
  then show ?thesis
    by (cases "next_handler platform (tr @ [Call_verifyAccessJWT jwt team aud,
           Set_accessUser (payload_email payload) (payload_name payload)])")
       (simp_all add: verify_jwt_def io_defs next_called_def grant_def set_accessUser_def)
qed

lemma sample_modes:
  "DEV_MODE env_dev_mode = Some ''true''"
  "E2E_TEST_MODE env_e2e_mode = Some ''true''"
  "DEV_MODE env_not_exact = Some ''TRUE''"
  "E2E_TEST_MODE env_not_exact = Some ''1''"
  "DEV_MODE empty_env = None" "E2E_TEST_MODE empty_env = None"
  by (simp_all add: env_dev_mode_def env_e2e_mode_def env_not_exact_def empty_env_def)

lemma strict_platform_answers:
  "next_handler strict_platform tr = None"
  "verifyAccessJWT strict_platform tr jwt team aud = Inl (Error ''invalid token'')"
  by (simp_all add: strict_platform_def)

lemma not_exact_run:
  "createAccessMiddleware json_options strict_platform env_not_exact bare_request [] =
     ([], Inr (Some (Json_response
             [(''error'', ''Cloudflare Access not configured''),
              (''hint'', ''Set CF_ACCESS_TEAM_DOMAIN and CF_ACCESS_AUD environment variables'')]
             500)))"
  by (simp add: createAccessMiddleware_def authenticate_def isDevMode_def isE2ETestMode_def
      token_matches_def respond_not_configured_def Let_def io_defs json_options_def
      env_not_exact_def empty_env_def)

text \<open>
  C10. The two mode tests compare with the exact string \<open>true\<close>. When \<open>DEV_MODE\<close> or
  \<open>E2E_TEST_MODE\<close> is that string, the middleware sets the fixed development user and
  calls \<open>next\<close>, and does nothing else: its trace has no call of \<open>verifyAccessJWT\<close>
  and does not depend on the request, the gateway token or the options. For any other
  values of the two variables the bypass does not apply: the next handler is reached only
  when the gateway token matches or after one call of \<open>verifyAccessJWT\<close> that returned
  a payload.
\<close>

theorem dev_mode_bypass:
  "(isDevMode env \<longleftrightarrow> DEV_MODE env = Some ''true'')
   \<and> (isE2ETestMode env \<longleftrightarrow> E2E_TEST_MODE env = Some ''true'')
   \<and> (DEV_MODE env = Some ''true'' \<or> E2E_TEST_MODE env = Some ''true'' \<longrightarrow>
        createAccessMiddleware options platform env req tr =
          (tr @ [Set_accessUser ''dev@localhost'' ''Dev User'', Call_next],
           case next_handler platform (tr @ [Set_accessUser ''dev@localhost'' ''Dev User'']) of
             None \<Rightarrow> Inr None | Some e \<Rightarrow> Inl e))
   \<and> (DEV_MODE env \<noteq> Some ''true'' \<and> E2E_TEST_MODE env \<noteq> Some ''true'' \<longrightarrow>
        (\<exists>evs r. createAccessMiddleware options platform env req tr = (tr @ evs, r)
           \<and> (next_called evs \<longrightarrow>
                 token_matches env req
                 \<or> (\<exists>jwt team aud payload.
                       verifications_of evs = [(jwt, team, aud)]
                       \<and> verifyAccessJWT platform tr jwt team aud = Inr payload))))"
proof (intro conjI impI)
  show "isDevMode env \<longleftrightarrow> DEV_MODE env = Some ''true''" by (simp add: isDevMode_def)
  show "isE2ETestMode env \<longleftrightarrow> E2E_TEST_MODE env = Some ''true''"
    by (simp add: isE2ETestMode_def)
next
  assume "DEV_MODE env = Some ''true'' \<or> E2E_TEST_MODE env = Some ''true''"
  then have "isDevMode env \<or> isE2ETestMode env"
    by (simp add: isDevMode_def isE2ETestMode_def)
  then show "createAccessMiddleware options platform env req tr =
          (tr @ [Set_accessUser ''dev@localhost'' ''Dev User'', Call_next],
           case next_handler platform (tr @ [Set_accessUser ''dev@localhost'' ''Dev User'']) of
             None \<Rightarrow> Inr None | Some e \<Rightarrow> Inl e)"
    by (simp add: createAccessMiddleware_def grant_run)
next
  assume "DEV_MODE env \<noteq> Some ''true'' \<and> E2E_TEST_MODE env \<noteq> Some ''true''"
  then have nb: "\<not> (isDevMode env \<or> isE2ETestMode env)"
    by (simp add: isDevMode_def isE2ETestMode_def)
  let ?goal = "\<exists>evs r. createAccessMiddleware options platform env req tr = (tr @ evs, r)
           \<and> (next_called evs \<longrightarrow>
                 token_matches env req
                 \<or> (\<exists>jwt team aud payload.
                       verifications_of evs = [(jwt, team, aud)]
                       \<and> verifyAccessJWT platform tr jwt team aud = Inr payload))"
  show ?goal
  proof (cases "token_matches env req")
    case True
    with nb show ?thesis
      by (simp add: createAccessMiddleware_def authenticate_def Let_def grant_run)
  next
    case False
    show ?thesis
    proof (cases "\<not> truthy (CF_ACCESS_TEAM_DOMAIN env) \<or> \<not> truthy (CF_ACCESS_AUD env)
                  \<or> \<not> truthy (extractJWT req)")
      case True
      with nb False have "\<exists>resp. createAccessMiddleware options platform env req tr
          = (tr @ [], Inr (Some resp))"
        by (auto simp: createAccessMiddleware_def authenticate_def Let_def io_defs)
      then show ?thesis by (auto simp: next_called_def)
    next
      case c: False
      let ?jwt = "the (extractJWT req)"
      let ?team = "the (CF_ACCESS_TEAM_DOMAIN env)"
      let ?aud = "the (CF_ACCESS_AUD env)"
      from verify_jwt_run [of "response_type options" platform ?jwt ?team ?aud tr]
      obtain evs r where
        v: "verify_jwt (response_type options) platform ?jwt ?team ?aud tr
              = (tr @ Call_verifyAccessJWT ?jwt ?team ?aud # evs, r)"
          "verifications_of evs = []"
          "next_called evs \<longrightarrow>
             (\<exists>payload. verifyAccessJWT platform tr ?jwt ?team ?aud = Inr payload)"
        by blast
      have "createAccessMiddleware options platform env req tr
              = (tr @ Call_verifyAccessJWT ?jwt ?team ?aud # evs, r)"
        using nb False c v(1)
        by (simp add: createAccessMiddleware_def authenticate_def Let_def)
      moreover have "next_called (Call_verifyAccessJWT ?jwt ?team ?aud # evs) \<longrightarrow>
          (\<exists>jwt team aud payload.
             verifications_of (Call_verifyAccessJWT ?jwt ?team ?aud # evs) = [(jwt, team, aud)]
             \<and> verifyAccessJWT platform tr jwt team aud = Inr payload)"
        using v(2,3) by (simp add: next_called_def)
      ultimately show ?thesis by blast
    qed
  qed
qed


theorem dev_mode_bypass_witness:
  "DEV_MODE env_dev_mode = Some ''true''
   \<and> createAccessMiddleware json_options strict_platform env_dev_mode bare_request [] =
       ([Set_accessUser ''dev@localhost'' ''Dev User'', Call_next], Inr None)
   \<and> E2E_TEST_MODE env_e2e_mode = Some ''true''
   \<and> createAccessMiddleware json_options strict_platform env_e2e_mode bare_request [] =
       ([Set_accessUser ''dev@localhost'' ''Dev User'', Call_next], Inr None)
   \<and> DEV_MODE env_not_exact \<noteq> Some ''true'' \<and> E2E_TEST_MODE env_not_exact \<noteq> Some ''true''
   \<and> \<not> isDevMode env_not_exact \<and> \<not> isE2ETestMode env_not_exact
   \<and> \<not> isDevMode empty_env \<and> \<not> isE2ETestMode empty_env
   \<and> createAccessMiddleware json_options strict_platform env_not_exact bare_request [] =
       ([], Inr (Some (Json_response
             [(''error'', ''Cloudflare Access not configured''),
              (''hint'', ''Set CF_ACCESS_TEAM_DOMAIN and CF_ACCESS_AUD environment variables'')]
             500)))"
  using dev_mode_bypass [of env_dev_mode json_options strict_platform bare_request "[]"]
    dev_mode_bypass [of env_e2e_mode json_options strict_platform bare_request "[]"]
    dev_mode_bypass [of env_not_exact json_options strict_platform bare_request "[]"]
    dev_mode_bypass [of empty_env json_options strict_platform bare_request "[]"]
  by (simp add: sample_modes not_exact_run strict_platform_answers)



subsection \<open>The crash fallback of the launch script\<close>

lemma responder_loop_serves:
  assumes "\<forall>j<n. echo_status (turn world (i + j)) = 0 \<and> tail_status (turn world (i + j)) = 0
                  \<and> nc_status (turn world (i + j)) = 0"
  shows "responder_loop exit_code world i n =
           (map (\<lambda>j. response_txt exit_code (log_lines (turn world (i + j)))) [0..<n],
            Still_serving)"
  using assms
proof (induction n arbitrary: i)
  case 0
  then show ?case by simp
next
  case (Suc n)
  have ok0: "echo_status (turn world i) = 0" "tail_status (turn world i) = 0"
    "nc_status (turn world i) = 0"
    using Suc.prems [rule_format, of 0] by simp_all
  have "\<forall>j<n. echo_status (turn world (Suc i + j)) = 0
             \<and> tail_status (turn world (Suc i + j)) = 0
             \<and> nc_status (turn world (Suc i + j)) = 0"
    using Suc.prems by (metis Suc_less_eq add_Suc_shift)
  from Suc.IH [OF this] ok0 show ?case
    by (simp add: Let_def map_upt_Suc del: upt_Suc)
qed

lemma response_txt_content:
  "sublist (''CRASH DETECTED (Exit code: '' @ show_nat exit_code @ '')'') (response_txt exit_code ls)
   \<and> suffix (unlines (tail_n 50 ls)) (response_txt exit_code ls)"
proof
  show "sublist (''CRASH DETECTED (Exit code: '' @ show_nat exit_code @ '')'')
          (response_txt exit_code ls)"
    unfolding response_txt_def sublist_def
    by (intro exI [of _ "''HTTP/1.1 200 OK'' @ [CHR 0x0D, CHR 0x0A]
          @ ''Content-Type: text/plain; charset=utf-8'' @ [CHR 0x0D, CHR 0x0A]
          @ [CHR 0x0D, CHR 0x0A]"]
        exI [of _ "[CHR 0x0A] @ [CHR 0x0A] @ ''--- LAST 50 LINES OF LOG ---'' @ [CHR 0x0A]
          @ [CHR 0x0A] @ unlines (tail_n 50 ls)"]) simp
  show "suffix (unlines (tail_n 50 ls)) (response_txt exit_code ls)"
    unfolding response_txt_def suffix_def by (metis append.assoc)
qed

lemma show_nat_137: "show_nat 137 = ''137''"
  by (simp add: show_nat.simps digit_char_def)

lemma calm_world_answers:
  "gateway_exit (calm_world c) argv = Some c"
  "turn (calm_world c) i = \<lparr> echo_status = 0, tail_status = 0, nc_status = 0,
                      log_lines = [''Starting Moltbot Gateway...'', ''Killed''] \<rparr>"
  by (simp_all add: calm_world_def)

text \<open>
  C7 as stated fails for exit code 0: when the gateway exits with status 0 the
  \<open>||\<close> list is done, the function is not called, no responder is started and the script
  ends with status 0, with or without a token. Nor is the loop without end in every run:
  where \<open>nc\<close> fails, \<open>set -e\<close> ends the script in that turn, with the status of
  \<open>nc\<close>.
\<close>

theorem clean_exit_starts_no_responder:
  "supervise_gateway ''secret'' (calm_world 0) 3 = ([], Script_exit 0)
   \<and> supervise_gateway [] (calm_world 0) 3 = ([], Script_exit 0)
   \<and> supervise_gateway [] busy_port_world 3
       = ([response_txt 1 [''Starting Moltbot Gateway...'']], Script_exit 1)"
  by (simp add: supervise_gateway_def keep_alive_on_crash_def calm_world_def
      busy_port_world_def numeral_3_eq_3)

text \<open>
  C7 as amended. If the gateway exits with a status that is not 0, the script enters
  \<open>keep_alive_on_crash\<close> with that status: for every number \<open>n\<close> of turns in which
  the commands of the loop succeed, it has handed \<open>n\<close> responses to the listener on port
  18789 and is still serving, so it does not end by itself. Every response is the fixed
  text with the exit code followed by the last 50 lines of the log. If the gateway exits
  with status 0, nothing is served and the script ends with status 0.
\<close>

theorem crash_starts_responder:
  "(gateway_exit world (gateway_command token) = Some exit_code \<and> exit_code \<noteq> 0
      \<and> (\<forall>j<n. echo_status (turn world j) = 0 \<and> tail_status (turn world j) = 0
                  \<and> nc_status (turn world j) = 0)
    \<longrightarrow> supervise_gateway token world n =
          (map (\<lambda>j. response_txt exit_code (log_lines (turn world j))) [0..<n], Still_serving))
   \<and> (gateway_exit world (gateway_command token) = Some 0
    \<longrightarrow> supervise_gateway token world n = ([], Script_exit 0))
   \<and> sublist (''CRASH DETECTED (Exit code: '' @ show_nat exit_code @ '')'')
        (response_txt exit_code ls)
   \<and> suffix (unlines (tail_n 50 ls)) (response_txt exit_code ls)"
  using responder_loop_serves [of n world 0 exit_code] response_txt_content [of exit_code ls]
  by (simp add: supervise_gateway_def keep_alive_on_crash_def)

theorem crash_starts_responder_witness:
  "gateway_exit (calm_world 137) (gateway_command ''secret'') = Some 137 \<and> (137::nat) \<noteq> 0
   \<and> echo_status (turn (calm_world 137) 0) = 0 \<and> tail_status (turn (calm_world 137) 0) = 0
   \<and> nc_status (turn (calm_world 137) 0) = 0
   \<and> echo_status (turn (calm_world 137) 1) = 0 \<and> tail_status (turn (calm_world 137) 1) = 0
   \<and> nc_status (turn (calm_world 137) 1) = 0
   \<and> supervise_gateway ''secret'' (calm_world 137) 2 =
       ([response_txt 137 [''Starting Moltbot Gateway...'', ''Killed''],
         response_txt 137 [''Starting Moltbot Gateway...'', ''Killed'']], Still_serving)
   \<and> gateway_exit (calm_world 0) (gateway_command ''secret'') = Some 0
   \<and> supervise_gateway ''secret'' (calm_world 0) 2 = ([], Script_exit 0)
   \<and> sublist ''CRASH DETECTED (Exit code: 137)''
        (response_txt 137 [''Starting Moltbot Gateway...'', ''Killed''])"
  using crash_starts_responder [of "calm_world 137" "''secret''" 137 2
      "[''Starting Moltbot Gateway...'', ''Killed'']"]
    crash_starts_responder [of "calm_world 0" "''secret''" 137 2
      "[''Starting Moltbot Gateway...'', ''Killed'']"]
  by (simp add: calm_world_answers show_nat_137 numeral_2_eq_2)



subsection \<open>Config synthesis: reading the document after each step\<close>

lemmas in_defs = in_agents_def in_defaults_def in_model_def in_allowlist_def in_gateway_def
  in_channels_def in_providers_def

lemma or_empty_Some [simp]:
  "or_empty_agents (Some a) = a" "or_empty_defaults (Some d) = d"
  "or_empty_model (Some m) = m" "or_empty_gateway (Some g) = g"
  "or_empty_channels (Some c) = c" "or_empty_models (Some ms) = ms"
  "or_empty_list (Some l) = l" "or_empty_list None = []"
  by (simp_all add: or_empty_agents_def or_empty_defaults_def or_empty_model_def
      or_empty_gateway_def or_empty_channels_def or_empty_models_def or_empty_list_def)

lemma providers_of_in [simp]:
  "providers_of (in_providers f config) = f (providers_of config)"
  "providers_of (in_agents fa config) = providers_of config"
  "providers_of (in_defaults fd config) = providers_of config"
  "providers_of (in_model fm config) = providers_of config"
  "providers_of (in_allowlist fl config) = providers_of config"
  "providers_of (in_gateway fg config) = providers_of config"
  "providers_of (in_channels fc config) = providers_of config"
  by (simp_all add: providers_of_def in_defs)

lemma allowlist_of_in [simp]:
  "allowlist_of (in_allowlist fl config) = fl (allowlist_of config)"
  "allowlist_of (in_providers f config) = allowlist_of config"
  "allowlist_of (in_model fm config) = allowlist_of config"
  by (simp_all add: allowlist_of_def in_defs)

lemma primary_of_in [simp]:
  "primary_of (in_model fm config) =
     primary (fm (or_empty_model (model (or_empty_defaults (defaults (or_empty_agents (agents config)))))))"
  by (simp add: primary_of_def in_defs)

lemma providers_of_steps [simp]:
  "providers_of (ensure_nested config) = providers_of config"
  "providers_of (configure_gateway env config) = providers_of config"
  "providers_of (configure_telegram env config) = providers_of config"
  "providers_of (configure_discord env config) = providers_of config"
  "providers_of (configure_slack env config) = providers_of config"
  "providers_of (set_primary env d config) = providers_of config"
  by (simp_all add: ensure_nested_def configure_gateway_def configure_telegram_def
      configure_discord_def configure_slack_def set_primary_def Let_def)

lemma providers_of_purge:
  "providers_of (purge_broken_anthropic config) =
     (case map_of (providers_of config) ''anthropic'' of
        Some block \<Rightarrow> if structurally_invalid block
                      then AList.delete ''anthropic'' (providers_of config)
                      else providers_of config
      | None \<Rightarrow> providers_of config)"
  by (simp add: purge_broken_anthropic_def providers_of_def structurally_invalid_def
      or_empty_models_def split: option.splits)

lemma purge_ensure_nested:
  "providers_of (purge_broken_anthropic (ensure_nested config))
     = providers_of (purge_broken_anthropic config)"
  by (simp add: providers_of_purge split: option.splits)

lemma providers_of_configure_provider:
  "\<exists>block. providers_of (configure_provider env config) =
     AList.update (written_provider env) block (providers_of config)"
proof (cases "isGoogle env")
  case True
  then show ?thesis
    by (cases "endsWith (baseUrl env) ''/openai''")
       (auto simp: configure_provider_def configure_google_def written_provider_def Let_def)
next
  case False
  then show ?thesis
    by (cases "isOpenAI env")
       (auto simp: configure_provider_def configure_openai_def configure_anthropic_def
          written_provider_def Let_def)
qed

lemma provider_block_other:
  "k \<noteq> written_provider env \<Longrightarrow>
     provider_block (configure_provider env config) k = provider_block config k"
  using providers_of_configure_provider [of env config]
  by (auto simp: provider_block_def update_conv')

lemma provider_block_written:
  "provider_block (configure_provider env config) (written_provider env) \<noteq> None"
  using providers_of_configure_provider [of env config]
  by (auto simp: provider_block_def update_conv')

lemma provider_block_before_provider:
  "provider_block
     (configure_slack env (configure_discord env (configure_telegram env
        (configure_gateway env (purge_broken_anthropic (ensure_nested config)))))) k
   = provider_block (purge_broken_anthropic config) k"
  by (simp add: provider_block_def purge_ensure_nested)

lemma written_provider_cases:
  "written_provider env = ''anthropic'' \<or> written_provider env = ''openai''
   \<or> written_provider env = ''google''"
  by (simp add: written_provider_def)

lemma no_env_classification:
  "baseUrl no_env = []" "\<not> isGoogle no_env" "\<not> isOpenAI no_env"
  "written_provider no_env = ''anthropic''"
  by (simp_all add: no_env_def baseUrl_def isGoogle_def isOpenAI_def written_provider_def
      or_else_def stripTrailingSlashes_def endsWith_def includes_str_def suffix_to_prefix)

lemma sample_blocks:
  "structurally_invalid broken_openai_block" "structurally_invalid broken_anthropic_block"
  "\<not> structurally_invalid stale_openai_block"
  by (simp_all add: structurally_invalid_def hasInvalidModels_def broken_openai_block_def
      broken_anthropic_block_def stale_openai_block_def nameless_entry_def openaiModels_def)

lemma providers_of_config_with [simp]: "providers_of (config_with ps) = ps"
  by (simp add: providers_of_def config_with_def empty_config_def)

lemma purge_samples:
  "providers_of (purge_broken_anthropic (config_with [(''openai'', stale_openai_block)]))
     = [(''openai'', stale_openai_block)]"
  "providers_of (purge_broken_anthropic (config_with [(''openai'', broken_openai_block)]))
     = [(''openai'', broken_openai_block)]"
  "providers_of (purge_broken_anthropic (config_with [(''anthropic'', broken_anthropic_block)]))
     = []"
  "providers_of (purge_broken_anthropic empty_config) = []"
  by (simp_all add: providers_of_purge sample_blocks)
     (simp add: providers_of_def empty_config_def or_empty_models_def)

lemma purge_keeps_valid:
  "provider_block config ''anthropic'' = Some block \<Longrightarrow> \<not> structurally_invalid block
     \<Longrightarrow> purge_broken_anthropic config = config"
  by (auto simp: purge_broken_anthropic_def provider_block_def providers_of_def
      structurally_invalid_def or_empty_models_def split: option.splits)

lemma allowlist_of_steps [simp]:
  "allowlist_of (set_primary env d config) = allowlist_of config"
  by (simp add: set_primary_def Let_def)

lemma primary_of_set_primary:
  "primary_of (set_primary env d config) =
     Some (if truthy (env ''CF_AI_GATEWAY_MODEL'') then the (env ''CF_AI_GATEWAY_MODEL'') else d)"
  by (simp add: set_primary_def Let_def)

lemma openai_not_google: "endsWith u ''/openai'' \<Longrightarrow> \<not> endsWith u ''/google''"
  by (auto simp: endsWith_def suffix_def)

lemma google_via_openai_block:
  assumes "isGoogle env" "endsWith (baseUrl env) ''/openai''"
  shows "provider_block (configure_provider env config) ''openai'' =
           Some \<lparr> provider_baseUrl = baseUrl env, provider_api = ''openai-responses'',
                  provider_models = Some googleModels, provider_apiKey = None \<rparr>"
    and "allowlist_of (configure_provider env config) =
           fold (\<lambda>m al. allow ''openai/google/'' m (allow ''google/'' m al)) googleModels
             (allowlist_of config)"
  using assms
  by (simp_all add: provider_block_def configure_provider_def configure_google_def Let_def
      update_conv')

lemma google_aliases:
  "\<forall>m \<in> set googleModels.
     map_of (fold (\<lambda>m al. allow ''openai/google/'' m (allow ''google/'' m al)) googleModels al)
       (''google/'' @ entry_id m) = Some \<lparr> model_alias = entry_name m \<rparr>
     \<and> map_of (fold (\<lambda>m al. allow ''openai/google/'' m (allow ''google/'' m al)) googleModels al)
       (''openai/google/'' @ entry_id m) = Some \<lparr> model_alias = entry_name m \<rparr>"
  by (simp add: googleModels_def allow_def update_conv')

lemma native_openai_block:
  assumes "\<not> isGoogle env" "endsWith (baseUrl env) ''/openai''"
  shows "provider_block (configure_provider env config) ''openai'' =
           Some \<lparr> provider_baseUrl = baseUrl env, provider_api = ''openai-responses'',
                  provider_models = Some openaiModels, provider_apiKey = None \<rparr>"
  using assms
  by (simp add: provider_block_def configure_provider_def configure_openai_def isOpenAI_def
      Let_def update_conv')

lemma no_baseUrl:
  "\<not> truthy (env ''AI_GATEWAY_BASE_URL'') \<Longrightarrow> \<not> truthy (env ''ANTHROPIC_BASE_URL'')
     \<Longrightarrow> baseUrl env = []"
  by (simp add: baseUrl_def or_else_def stripTrailingSlashes_def)

lemma anthropic_default:
  assumes "baseUrl env = []" "\<not> truthy (env ''CF_AI_GATEWAY_MODEL'')"
  shows "provider_block (configure_provider env config) ''anthropic'' =
           Some \<lparr> provider_baseUrl = ''https://api.anthropic.com'',
                  provider_api = ''anthropic-messages'',
                  provider_models = Some anthropicModels,
                  provider_apiKey =
                    (if truthy (env ''ANTHROPIC_API_KEY'') then env ''ANTHROPIC_API_KEY''
                     else None) \<rparr>"
    and "primary_of (configure_provider env config) = Some ''anthropic/claude-sonnet-4-5-20250929''"
proof -
  have ng: "\<not> isGoogle env" "\<not> isOpenAI env"
    using assms
    by (simp_all add: isGoogle_def isOpenAI_def endsWith_def includes_str_def
        suffix_to_prefix sublist_code)
  show "provider_block (configure_provider env config) ''anthropic'' =
           Some \<lparr> provider_baseUrl = ''https://api.anthropic.com'',
                  provider_api = ''anthropic-messages'',
                  provider_models = Some anthropicModels,
                  provider_apiKey =
                    (if truthy (env ''ANTHROPIC_API_KEY'') then env ''ANTHROPIC_API_KEY''
                     else None) \<rparr>"
    using ng assms(1)
    by (simp add: provider_block_def configure_provider_def configure_anthropic_def Let_def
        update_conv')
  show "primary_of (configure_provider env config) = Some ''anthropic/claude-sonnet-4-5-20250929''"
    using ng assms(2)
    by (simp add: configure_provider_def configure_anthropic_def Let_def primary_of_set_primary)
qed

lemma sample_process_envs:
  "baseUrl google_via_openai_env = ''https://gateway.ai.cloudflare.com/v1/acc/gw/openai''"
  "google_via_openai_env ''CF_AI_GATEWAY_MODEL'' = Some ''google/gemini-3-flash''"
  "baseUrl openai_env = ''https://gateway.ai.cloudflare.com/v1/acc/gw/openai''"
  "openai_env ''CF_AI_GATEWAY_MODEL'' = None"
  "no_env v = None"
  by (simp_all add: google_via_openai_env_def openai_env_def no_env_def baseUrl_def
      or_else_def stripTrailingSlashes_def)

lemma sample_url_shape:
  "endsWith ''https://gateway.ai.cloudflare.com/v1/acc/gw/openai'' ''/openai''"
  "\<not> includes_str ''https://gateway.ai.cloudflare.com/v1/acc/gw/openai'' ''gemini''"
  by (simp_all add: endsWith_def includes_str_def suffix_to_prefix sublist_code)


subsection \<open>Provider classification\<close>

text \<open>
  C1. The base URL is the normalised one, \<open>AI_GATEWAY_BASE_URL\<close> or else
  \<open>ANTHROPIC_BASE_URL\<close> without its trailing slashes. For every starting document:
  if the base URL ends with \<open>/openai\<close> and the model is \<open>google/gemini-3-flash\<close>, the
  \<open>openai\<close> provider block is written with the Google catalog, and for every Google
  model both \<open>google/<id>\<close> and \<open>openai/google/<id>\<close> are in the allowlist with the
  model's name as alias; if the base URL ends with \<open>/openai\<close> and nothing points to
  Google (the URL does not contain \<open>gemini\<close> and the model does not start with
  \<open>google/\<close>), the \<open>openai\<close> block is written with the OpenAI catalog; if no base URL
  and no model is set, the \<open>anthropic\<close> block is written and the primary model is
  \<open>anthropic/claude-sonnet-4-5-20250929\<close>.
\<close>

theorem provider_classification:
  "(endsWith (baseUrl env) ''/openai''
      \<and> env ''CF_AI_GATEWAY_MODEL'' = Some ''google/gemini-3-flash'' \<longrightarrow>
        provider_block (synthesize env parsed) ''openai'' =
          Some \<lparr> provider_baseUrl = baseUrl env, provider_api = ''openai-responses'',
                 provider_models = Some googleModels, provider_apiKey = None \<rparr>
        \<and> (\<forall>m \<in> set googleModels.
              map_of (allowlist_of (synthesize env parsed)) (''google/'' @ entry_id m)
                = Some \<lparr> model_alias = entry_name m \<rparr>
              \<and> map_of (allowlist_of (synthesize env parsed)) (''openai/google/'' @ entry_id m)
                = Some \<lparr> model_alias = entry_name m \<rparr>))
   \<and> (endsWith (baseUrl env) ''/openai'' \<and> \<not> includes_str (baseUrl env) ''gemini''
      \<and> \<not> (truthy (env ''CF_AI_GATEWAY_MODEL'')
             \<and> startsWith (the (env ''CF_AI_GATEWAY_MODEL'')) ''google/'') \<longrightarrow>
        provider_block (synthesize env parsed) ''openai'' =
          Some \<lparr> provider_baseUrl = baseUrl env, provider_api = ''openai-responses'',
                 provider_models = Some openaiModels, provider_apiKey = None \<rparr>)
   \<and> (\<not> truthy (env ''AI_GATEWAY_BASE_URL'') \<and> \<not> truthy (env ''ANTHROPIC_BASE_URL'')
      \<and> \<not> truthy (env ''CF_AI_GATEWAY_MODEL'') \<longrightarrow>
        provider_block (synthesize env parsed) ''anthropic'' =
          Some \<lparr> provider_baseUrl = ''https://api.anthropic.com'',
                 provider_api = ''anthropic-messages'',
                 provider_models = Some anthropicModels,
                 provider_apiKey =
                   (if truthy (env ''ANTHROPIC_API_KEY'') then env ''ANTHROPIC_API_KEY''
                    else None) \<rparr>
        \<and> primary_of (synthesize env parsed) = Some ''anthropic/claude-sonnet-4-5-20250929'')"
proof (intro conjI impI)
  assume a: "endsWith (baseUrl env) ''/openai''
      \<and> env ''CF_AI_GATEWAY_MODEL'' = Some ''google/gemini-3-flash''"
  then have g: "isGoogle env" by (simp add: isGoogle_def startsWith_def)
  from g a show "provider_block (synthesize env parsed) ''openai'' =
          Some \<lparr> provider_baseUrl = baseUrl env, provider_api = ''openai-responses'',
                 provider_models = Some googleModels, provider_apiKey = None \<rparr>"
    by (simp add: synthesize_def google_via_openai_block)
  from g a show "\<forall>m \<in> set googleModels.
              map_of (allowlist_of (synthesize env parsed)) (''google/'' @ entry_id m)
                = Some \<lparr> model_alias = entry_name m \<rparr>
              \<and> map_of (allowlist_of (synthesize env parsed)) (''openai/google/'' @ entry_id m)
                = Some \<lparr> model_alias = entry_name m \<rparr>"
    using google_aliases by (simp add: synthesize_def google_via_openai_block)
next
  assume a: "endsWith (baseUrl env) ''/openai'' \<and> \<not> includes_str (baseUrl env) ''gemini''
      \<and> \<not> (truthy (env ''CF_AI_GATEWAY_MODEL'')
             \<and> startsWith (the (env ''CF_AI_GATEWAY_MODEL'')) ''google/'')"
  then have "\<not> isGoogle env" using openai_not_google by (auto simp: isGoogle_def)
  with a show "provider_block (synthesize env parsed) ''openai'' =
          Some \<lparr> provider_baseUrl = baseUrl env, provider_api = ''openai-responses'',
                 provider_models = Some openaiModels, provider_apiKey = None \<rparr>"
    by (simp add: synthesize_def native_openai_block)
next
  assume a: "\<not> truthy (env ''AI_GATEWAY_BASE_URL'') \<and> \<not> truthy (env ''ANTHROPIC_BASE_URL'')
      \<and> \<not> truthy (env ''CF_AI_GATEWAY_MODEL'')"
  then have b: "baseUrl env = []" by (simp add: no_baseUrl)
  from a b show "provider_block (synthesize env parsed) ''anthropic'' =
          Some \<lparr> provider_baseUrl = ''https://api.anthropic.com'',
                 provider_api = ''anthropic-messages'',
                 provider_models = Some anthropicModels,
                 provider_apiKey =
                   (if truthy (env ''ANTHROPIC_API_KEY'') then env ''ANTHROPIC_API_KEY''
                    else None) \<rparr>"
    by (simp add: synthesize_def anthropic_default)
  from a b show "primary_of (synthesize env parsed) = Some ''anthropic/claude-sonnet-4-5-20250929''"
    by (simp add: synthesize_def anthropic_default)
qed


theorem provider_classification_witness:
  "endsWith (baseUrl google_via_openai_env) ''/openai''
   \<and> google_via_openai_env ''CF_AI_GATEWAY_MODEL'' = Some ''google/gemini-3-flash''
   \<and> provider_block (synthesize google_via_openai_env None) ''openai'' =
        Some \<lparr> provider_baseUrl = ''https://gateway.ai.cloudflare.com/v1/acc/gw/openai'',
               provider_api = ''openai-responses'',
               provider_models = Some googleModels, provider_apiKey = None \<rparr>
   \<and> map_of (allowlist_of (synthesize google_via_openai_env None)) ''google/gemini-3-flash''
        = Some \<lparr> model_alias = Some ''Gemini 3 Flash'' \<rparr>
   \<and> map_of (allowlist_of (synthesize google_via_openai_env None))
          ''openai/google/gemini-3-flash''
        = Some \<lparr> model_alias = Some ''Gemini 3 Flash'' \<rparr>
   \<and> endsWith (baseUrl openai_env) ''/openai'' \<and> \<not> includes_str (baseUrl openai_env) ''gemini''
   \<and> \<not> truthy (openai_env ''CF_AI_GATEWAY_MODEL'')
   \<and> provider_block (synthesize openai_env None) ''openai'' =
        Some \<lparr> provider_baseUrl = ''https://gateway.ai.cloudflare.com/v1/acc/gw/openai'',
               provider_api = ''openai-responses'',
               provider_models = Some openaiModels, provider_apiKey = None \<rparr>
   \<and> \<not> truthy (no_env ''AI_GATEWAY_BASE_URL'') \<and> \<not> truthy (no_env ''ANTHROPIC_BASE_URL'')
   \<and> \<not> truthy (no_env ''CF_AI_GATEWAY_MODEL'')
   \<and> provider_block (synthesize no_env None) ''anthropic'' =
        Some \<lparr> provider_baseUrl = ''https://api.anthropic.com'',
               provider_api = ''anthropic-messages'',
               provider_models = Some anthropicModels, provider_apiKey = None \<rparr>
   \<and> primary_of (synthesize no_env None) = Some ''anthropic/claude-sonnet-4-5-20250929''"
  using provider_classification [of google_via_openai_env None]
    provider_classification [of openai_env None]
    provider_classification [of no_env None]
  by (simp add: sample_process_envs sample_url_shape googleModels_def)



subsection \<open>How many provider blocks the written document has\<close>

text \<open>
  C6 as stated fails: a document left by an earlier run with an \<open>openai\<close> block, read
  with no provider variable set, is written back with the new \<open>anthropic\<close> block and
  the old \<open>openai\<close> block, two populated blocks.
\<close>

theorem stale_block_survives:
  "populated (synthesize no_env (Some (config_with [(''openai'', stale_openai_block)])))
     = [''anthropic'', ''openai'']"
proof -
  let ?out = "synthesize no_env (Some (config_with [(''openai'', stale_openai_block)]))"
  have "provider_block ?out ''anthropic'' \<noteq> None"
    using provider_block_written [of no_env] by (simp add: synthesize_def no_env_classification)
  moreover have "provider_block ?out ''openai'' = Some stale_openai_block"
    by (simp add: synthesize_def provider_block_other provider_block_before_provider
        no_env_classification parsed_or_empty_def)
       (simp add: provider_block_def purge_samples)
  moreover have "provider_block ?out ''google'' = None"
    by (simp add: synthesize_def provider_block_other provider_block_before_provider
        no_env_classification parsed_or_empty_def)
       (simp add: provider_block_def purge_samples)
  ultimately show ?thesis by (simp add: populated_def)
qed

text \<open>
  C6 as amended. After synthesis the block of the provider the classification selects is
  populated, and every other block is what the starting document had after the
  clean-up of the anthropic block. So exactly one of the three blocks is populated if and
  only if the starting document, after the clean-up, has no block of another provider.
\<close>

theorem provider_blocks_after_synthesis:
  "provider_block (synthesize env parsed) (written_provider env) \<noteq> None
   \<and> (\<forall>k. k \<noteq> written_provider env \<longrightarrow>
          provider_block (synthesize env parsed) k
            = provider_block (purge_broken_anthropic (parsed_or_empty parsed)) k)
   \<and> (length (populated (synthesize env parsed)) = 1 \<longleftrightarrow>
        (\<forall>k \<in> {''anthropic'', ''openai'', ''google''}. k \<noteq> written_provider env \<longrightarrow>
           provider_block (purge_broken_anthropic (parsed_or_empty parsed)) k = None))"
proof -
  let ?out = "synthesize env parsed"
  let ?old = "purge_broken_anthropic (parsed_or_empty parsed)"
  have w: "provider_block ?out (written_provider env) \<noteq> None"
    by (simp add: synthesize_def provider_block_written)
  have o: "\<And>k. k \<noteq> written_provider env \<Longrightarrow> provider_block ?out k = provider_block ?old k"
    by (simp add: synthesize_def provider_block_other provider_block_before_provider)
  have "length (populated ?out) = 1 \<longleftrightarrow>
        (\<forall>k \<in> {''anthropic'', ''openai'', ''google''}. k \<noteq> written_provider env \<longrightarrow>
           provider_block ?old k = None)"
    using written_provider_cases [of env]
  proof (elim disjE)
    assume a: "written_provider env = ''anthropic''"
    with w o [of "''openai''"] o [of "''google''"] show ?thesis
      by (auto simp: populated_def)
  next
    assume a: "written_provider env = ''openai''"
    with w o [of "''anthropic''"] o [of "''google''"] show ?thesis
      by (auto simp: populated_def)
  next
    assume a: "written_provider env = ''google''"
    with w o [of "''anthropic''"] o [of "''openai''"] show ?thesis
      by (auto simp: populated_def)
  qed
  with w o show ?thesis by blast
qed


theorem provider_blocks_after_synthesis_witness:
  "provider_block (synthesize no_env None) ''anthropic'' \<noteq> None
   \<and> provider_block (synthesize no_env None) ''openai'' = None
   \<and> provider_block
        (synthesize no_env (Some (config_with [(''anthropic'', broken_anthropic_block)])))
        ''google'' = None
   \<and> length (populated (synthesize no_env None)) = 1
   \<and> length (populated
        (synthesize no_env (Some (config_with [(''anthropic'', broken_anthropic_block)])))) = 1
   \<and> length (populated
        (synthesize no_env (Some (config_with [(''openai'', stale_openai_block)])))) \<noteq> 1"
  using provider_blocks_after_synthesis [of no_env None]
    provider_blocks_after_synthesis
      [of no_env "Some (config_with [(''anthropic'', broken_anthropic_block)])"]
    provider_blocks_after_synthesis
      [of no_env "Some (config_with [(''openai'', stale_openai_block)])"]
  by (simp add: no_env_classification parsed_or_empty_def)
     (simp add: provider_block_def purge_samples)




subsection \<open>Which broken provider blocks are purged\<close>

text \<open>
  C8 as stated fails: an \<open>openai\<close> block whose model entry has no name is not deleted,
  neither by the clean-up nor by the rest of the synthesis when another provider is
  selected.
\<close>

theorem broken_openai_block_survives:
  "structurally_invalid broken_openai_block
   \<and> provider_block (purge_broken_anthropic (config_with [(''openai'', broken_openai_block)]))
        ''openai'' = Some broken_openai_block
   \<and> provider_block (synthesize no_env (Some (config_with [(''openai'', broken_openai_block)])))
        ''openai'' = Some broken_openai_block"
  by (simp add: synthesize_def provider_block_other provider_block_before_provider
        no_env_classification parsed_or_empty_def sample_blocks)
     (simp add: provider_block_def purge_samples)

text \<open>
  C8 as amended. The clean-up deletes the \<open>anthropic\<close> block when one of its model
  entries has no name, and leaves the document as it is when all of them have one; the
  block of any other provider is kept as it is, whatever its entries. The clean-up comes
  before the new provider block is written: in the written document every block but the
  selected provider's is the one the clean-up left.
\<close>

theorem purge_only_anthropic:
  "(provider_block config ''anthropic'' = Some block \<and> structurally_invalid block \<longrightarrow>
      provider_block (purge_broken_anthropic config) ''anthropic'' = None)
   \<and> (provider_block config ''anthropic'' = Some block \<and> \<not> structurally_invalid block \<longrightarrow>
      purge_broken_anthropic config = config)
   \<and> (k \<noteq> ''anthropic'' \<longrightarrow>
      provider_block (purge_broken_anthropic config) k = provider_block config k)
   \<and> (k \<noteq> written_provider env \<longrightarrow>
      provider_block (synthesize env parsed) k
        = provider_block (purge_broken_anthropic (parsed_or_empty parsed)) k)"
proof (intro conjI impI)
  assume "provider_block config ''anthropic'' = Some block \<and> structurally_invalid block"
  then show "provider_block (purge_broken_anthropic config) ''anthropic'' = None"
    by (simp add: provider_block_def providers_of_purge delete_conv')
next
  assume "provider_block config ''anthropic'' = Some block \<and> \<not> structurally_invalid block"
  then show "purge_broken_anthropic config = config"
    by (simp add: purge_keeps_valid)
next
  assume "k \<noteq> ''anthropic''"
  then show "provider_block (purge_broken_anthropic config) k = provider_block config k"
    by (simp add: provider_block_def providers_of_purge delete_conv' split: option.splits)
next
  assume "k \<noteq> written_provider env"
  then show "provider_block (synthesize env parsed) k
        = provider_block (purge_broken_anthropic (parsed_or_empty parsed)) k"
    by (simp add: synthesize_def provider_block_other provider_block_before_provider)
qed

theorem purge_only_anthropic_witness:
  "provider_block (config_with [(''anthropic'', broken_anthropic_block)]) ''anthropic''
     = Some broken_anthropic_block
   \<and> structurally_invalid broken_anthropic_block
   \<and> provider_block
        (purge_broken_anthropic (config_with [(''anthropic'', broken_anthropic_block)]))
        ''anthropic'' = None
   \<and> provider_block (config_with [(''openai'', stale_openai_block)]) ''anthropic'' = None
   \<and> ''openai'' \<noteq> ''anthropic'' \<and> ''openai'' \<noteq> written_provider no_env
   \<and> provider_block
        (purge_broken_anthropic (config_with [(''openai'', broken_openai_block)])) ''openai''
       = provider_block (config_with [(''openai'', broken_openai_block)]) ''openai''
   \<and> provider_block (synthesize no_env (Some (config_with [(''openai'', broken_openai_block)])))
        ''openai'' = Some broken_openai_block"
  using purge_only_anthropic
      [of "config_with [(''anthropic'', broken_anthropic_block)]" broken_anthropic_block
          "''openai''" no_env "Some (config_with [(''openai'', broken_openai_block)])"]
    purge_only_anthropic
      [of "config_with [(''openai'', broken_openai_block)]" broken_anthropic_block
          "''openai''" no_env "Some (config_with [(''openai'', broken_openai_block)])"]
  by (simp add: no_env_classification sample_blocks parsed_or_empty_def)
     (simp add: provider_block_def purge_samples)




end
